theory Spec2Isabelle
  imports Complex_Main "HOL-Library.AList" "HOL-Library.Sublist"
begin

section \<open>Python strings\<close>

text \<open>
  A Python \<open>str\<close> is modelled as a \<open>string\<close>; the characters of the model are the 256 code
  points below U+0100. The predicates below are the Python built-ins restricted to that range:
  \<open>str.isdigit\<close> holds for the decimal digits and for the superscripts U+00B2, U+00B3 and
  U+00B9; \<open>str.isspace\<close> (which \<open>str.strip\<close> and the regular expression class \<open>\s\<close> use) holds
  for U+0009..U+000D, U+001C..U+0020, U+0085 and U+00A0; the regular expression class \<open>\d\<close>
  holds for the decimal digits only.
\<close>

definition code_point :: "char \<Rightarrow> nat" where
  "code_point c = of_char c"

definition isdigit :: "char \<Rightarrow> bool" where
  "isdigit c = (let n = code_point c in (48 \<le> n \<and> n \<le> 57) \<or> n = 178 \<or> n = 179 \<or> n = 185)"

definition re_digit :: "char \<Rightarrow> bool" where
  "re_digit c = (let n = code_point c in 48 \<le> n \<and> n \<le> 57)"

definition isspace :: "char \<Rightarrow> bool" where
  "isspace c = (let n = code_point c in (9 \<le> n \<and> n \<le> 13) \<or> (28 \<le> n \<and> n \<le> 32) \<or> n = 133 \<or> n = 160)"

definition lower_char :: "char \<Rightarrow> char" where
  "lower_char c = (let n = code_point c in
     if (65 \<le> n \<and> n \<le> 90) \<or> (192 \<le> n \<and> n \<le> 222 \<and> n \<noteq> 215) then char_of (n + 32) else c)"

definition lower :: "string \<Rightarrow> string" where
  "lower s = map lower_char s"

text \<open>\<open>needle in hay\<close> on strings: \<open>needle\<close> occurs as a contiguous block of \<open>hay\<close>.\<close>

fun str_contains :: "string \<Rightarrow> string \<Rightarrow> bool" where
  "str_contains needle [] = (needle = [])"
| "str_contains needle (c # cs) = (prefix needle (c # cs) \<or> str_contains needle cs)"

section \<open>The database query executor\<close>

text \<open>
  \<open>NetChbDutyDatabaseManager._execute\<close> (database_manager.py). An exception is its type name
  and its message; a response is either an object with a \<open>data\<close> attribute or a dictionary.
  The state records what the executor does to the world: how often the query was executed, the
  arguments of \<open>time.sleep\<close> in order, and how often the client was created anew. Calls of the
  logger are left out.
\<close>

record py_exception =
  exc_type :: string
  exc_str :: string

datatype 'r pyval = PyNone | PyRows "'r list" | PyDict "(string \<times> 'r pyval) list"

datatype 'r response = RespObject "'r pyval" | RespDict "(string \<times> 'r pyval) list"

datatype 'r exec_outcome = Returns "'r response" | Raises py_exception

record db_state =
  executions :: nat
  slept :: "rat list"
  client_generation :: nat
  client_config_ok :: bool

definition max_retries :: nat where
  "max_retries = 3"

fun truthy :: "'r pyval \<Rightarrow> bool" where
  "truthy PyNone = False"
| "truthy (PyRows rs) = (rs \<noteq> [])"
| "truthy (PyDict kvs) = (kvs \<noteq> [])"

text \<open>
  \<open>data = getattr(response, "data", None)\<close>, then for a dictionary
  \<open>response.get("data", response)\<close>, and \<open>return data or default\<close>.
\<close>

definition response_data :: "'r response \<Rightarrow> 'r pyval" where
  "response_data r = (case r of
     RespObject d \<Rightarrow> d
   | RespDict kvs \<Rightarrow> (case map_of kvs ''data'' of None \<Rightarrow> PyDict kvs | Some d \<Rightarrow> d))"

definition data_or_default :: "'r response \<Rightarrow> 'r pyval \<Rightarrow> 'r pyval" where
  "data_or_default r dflt = (let d = response_data r in if truthy d then d else dflt)"

definition is_resource_error :: "py_exception \<Rightarrow> bool" where
  "is_resource_error e =
     (str_contains ''Resource temporarily unavailable'' (exc_str e) \<or>
      str_contains ''Errno 35'' (exc_str e) \<or>
      str_contains ''temporarily unavailable'' (lower (exc_str e)) \<or>
      str_contains ''EAGAIN'' (exc_str e) \<or>
      str_contains ''EWOULDBLOCK'' (exc_str e))"

definition is_connection_error :: "py_exception \<Rightarrow> bool" where
  "is_connection_error e =
     (str_contains ''Server disconnected'' (exc_str e) \<or>
      str_contains ''RemoteProtocolError'' (exc_type e) \<or>
      str_contains ''ConnectionError'' (exc_type e) \<or>
      str_contains ''disconnected'' (lower (exc_str e)) \<or>
      str_contains ''connection reset'' (lower (exc_str e)) \<or>
      str_contains ''connection closed'' (lower (exc_str e)))"


text \<open>
  \<open>self.supabase = self._get_supabase_client()\<close> inside its own \<open>try\<close>: when the client cannot
  be created the error is logged and the old client stays.
\<close>

definition recreate_client :: "db_state \<Rightarrow> db_state" where
  "recreate_client st =
     (if client_config_ok st then st\<lparr>client_generation := Suc (client_generation st)\<rparr> else st)"

definition wait_time :: "nat \<Rightarrow> rat" where
  "wait_time attempt = (1 / 2) * 2 ^ attempt"

definition before_retry :: "py_exception \<Rightarrow> nat \<Rightarrow> db_state \<Rightarrow> db_state" where
  "before_retry e attempt st =
     (let st1 = (if is_connection_error e then recreate_client st else st)
      in st1\<lparr>slept := slept st1 @ [wait_time attempt]\<rparr>)"

text \<open>
  The loop \<open>for attempt in range(max_retries)\<close>, entered at \<open>attempt\<close>. The query is a function
  from the attempt number to what \<open>query.execute()\<close> does at that attempt.
\<close>

function execute_from ::
  "(nat \<Rightarrow> 'r exec_outcome) \<Rightarrow> 'r pyval \<Rightarrow> nat \<Rightarrow> db_state \<Rightarrow> (py_exception + 'r pyval) \<times> db_state"
where
  "execute_from query dflt attempt st =
     (if attempt < max_retries then
        (let st1 = st\<lparr>executions := Suc (executions st)\<rparr> in
         case query attempt of
           Returns r \<Rightarrow> (Inr (data_or_default r dflt), st1)
         | Raises e \<Rightarrow>
             if (is_resource_error e \<or> is_connection_error e) \<and> attempt < max_retries - 1
             then execute_from query dflt (Suc attempt) (before_retry e attempt st1)
             else (Inl e, st1))
      else (Inr dflt, st))"
  by pat_completeness auto
termination
  by (relation "measure (\<lambda>(query, dflt, attempt, st). max_retries - attempt)") auto


declare execute_from.simps [simp del]

section \<open>The input parsers\<close>

text \<open>
  The string operations the two parsers use: \<open>str.strip()\<close>, \<open>str.split(sep)\<close> for a
  one-character separator, \<open>sep.join(parts)\<close>, \<open>re.search(r'\d{11}', s)\<close>,
  \<open>re.search(r'\s{2,}', s)\<close>, \<open>s.count(' ')\<close> and \<open>re.split(r'\s+', s)\<close>.
\<close>

definition strip :: "string \<Rightarrow> string" where
  "strip s = rev (dropWhile isspace (rev (dropWhile isspace s)))"

fun split_on :: "char \<Rightarrow> string \<Rightarrow> string list" where
  "split_on sep [] = [[]]"
| "split_on sep (c # cs) =
     (if c = sep then [] # split_on sep cs
      else (case split_on sep cs of [] \<Rightarrow> [[c]] | p # ps \<Rightarrow> (c # p) # ps))"

fun join :: "string \<Rightarrow> string list \<Rightarrow> string" where
  "join sep [] = []"
| "join sep [p] = p"
| "join sep (p # q # ps) = p @ sep @ join sep (q # ps)"

fun digit_run :: "nat \<Rightarrow> nat \<Rightarrow> string \<Rightarrow> bool" where
  "digit_run n k [] = (n \<le> k)"
| "digit_run n k (c # cs) =
     (if n \<le> k then True
      else if re_digit c then digit_run n (Suc k) cs
      else digit_run n 0 cs)"

definition re_search_d11 :: "string \<Rightarrow> bool" where
  "re_search_d11 s = digit_run 11 0 s"

fun re_search_s2 :: "string \<Rightarrow> bool" where
  "re_search_s2 (c # d # cs) = ((isspace c \<and> isspace d) \<or> re_search_s2 (d # cs))"
| "re_search_s2 cs = False"

definition count_char :: "char \<Rightarrow> string \<Rightarrow> nat" where
  "count_char c s = length (filter (\<lambda>x. x = c) s)"

fun re_split_ws_from :: "bool \<Rightarrow> string \<Rightarrow> string list" where
  "re_split_ws_from in_run [] = [[]]"
| "re_split_ws_from in_run (c # cs) =
     (if isspace c then (if in_run then re_split_ws_from True cs else [] # re_split_ws_from True cs)
      else (case re_split_ws_from False cs of [] \<Rightarrow> [[c]] | p # ps \<Rightarrow> (c # p) # ps))"

definition re_split_ws :: "string \<Rightarrow> string list" where
  "re_split_ws s = re_split_ws_from False s"

definition TAB :: char where
  "TAB = CHR 0x09"

definition NL :: char where
  "NL = CHR 0x0A"

definition digits_of :: "string \<Rightarrow> string" where
  "digits_of s = filter isdigit s"

text \<open>\<open>x or None\<close> and \<open>x if x else None\<close> on a string, and on a string that may be \<open>None\<close>.\<close>

definition or_none :: "string \<Rightarrow> string option" where
  "or_none s = (if s = [] then None else Some s)"

definition opt_or_none :: "string option \<Rightarrow> string option" where
  "opt_or_none x = (case x of None \<Rightarrow> None | Some s \<Rightarrow> or_none s)"

datatype py_error = ValueError | TypeError

text \<open>
  \<open>normalize_mawb\<close>, the same in both files. Iterating over \<open>None\<close> raises \<open>TypeError\<close>.
\<close>

definition normalize_mawb :: "string option \<Rightarrow> py_error + string" where
  "normalize_mawb mawb = (case mawb of
     None \<Rightarrow> Inl TypeError
   | Some s \<Rightarrow> (let digits = digits_of s in if length digits \<noteq> 11 then Inl ValueError else Inr digits))"

record mawb_item =
  mawb :: string
  airport_code :: "string option"
  customer :: "string option"
  checkbook_hawbs :: "string option"

text \<open>
  What the branches of the loop body leave in \<open>mawb_raw\<close>, \<open>airport_code\<close>, \<open>customer\<close> and
  \<open>checkbook_hawbs\<close>, or \<open>continue\<close>.
\<close>

datatype line_fields =
  Continue
| Fields "string option" "string option" "string option" "string option"

subsection \<open>service/netchb\_duty/input\_parser.py\<close>

text \<open>
  The branch for a tab-separated line and the branch for a comma-separated line have the same
  text; \<open>parts\<close> is the stripped split. In the branch for five or more columns whose fifth has
  no run of eleven digits, \<open>mawb_raw\<close> is \<open>None\<close> and \<open>airport_code\<close> and \<open>customer\<close> are not
  assigned; \<open>normalize_mawb(None)\<close> raises before they are read.
\<close>

definition delimited_fields :: "string list \<Rightarrow> line_fields" where
  "delimited_fields parts =
     (if 5 \<le> length parts then
        (if re_search_d11 (parts ! 4)
         then Fields (Some (parts ! 4)) (or_none (parts ! 0)) (or_none (parts ! 1)) (or_none (parts ! 3))
         else Fields None None None None)
      else if 3 \<le> length parts then
        Fields (Some (parts ! 2)) (or_none (parts ! 0)) (or_none (parts ! 1)) None
      else if length parts = 2 then
        (if re_search_d11 (parts ! 0) then
           Fields (Some (parts ! 0))
             (if parts ! 1 \<noteq> [] \<and> \<not> re_search_d11 (parts ! 1) then Some (parts ! 1) else None) None None
         else if re_search_d11 (parts ! 1) then
           Fields (Some (parts ! 1))
             (if parts ! 0 \<noteq> [] \<and> \<not> re_search_d11 (parts ! 0) then Some (parts ! 0) else None) None None
         else Continue)
      else Fields (Some (parts ! 0)) None None None)"

fun find_index_from :: "('a \<Rightarrow> bool) \<Rightarrow> nat \<Rightarrow> 'a list \<Rightarrow> nat option" where
  "find_index_from P idx [] = None"
| "find_index_from P idx (x # xs) = (if P x then Some idx else find_index_from P (Suc idx) xs)"

definition spaced_fields :: "string list \<Rightarrow> line_fields" where
  "spaced_fields parts =
     (case find_index_from re_search_d11 0 parts of
        Some mawb_idx \<Rightarrow>
          (if 5 \<le> length parts \<and> mawb_idx = 4
           then Fields (Some (parts ! 4)) (or_none (parts ! 0)) (or_none (parts ! 1)) (or_none (parts ! 3))
           else (let before_mawb = take mawb_idx parts in
                 if 2 \<le> length before_mawb
                 then Fields (Some (parts ! mawb_idx)) (or_none (before_mawb ! 0)) (or_none (before_mawb ! 1)) None
                 else if length before_mawb = 1
                 then Fields (Some (parts ! mawb_idx)) (or_none (before_mawb ! 0)) None None
                 else Fields (Some (parts ! mawb_idx)) None None None))
      | None \<Rightarrow>
          Fields (Some (parts ! 0))
            (if 1 < length parts then Some (parts ! 1) else None)
            (if 2 < length parts then Some (parts ! 2) else None) None)"

definition line_fields_of :: "string \<Rightarrow> line_fields" where
  "line_fields_of line =
     (if TAB \<in> set line then delimited_fields (map strip (split_on TAB line))
      else if CHR '','' \<in> set line then delimited_fields (map strip (split_on (CHR '','') line))
      else if re_search_s2 line \<or> 2 \<le> count_char (CHR '' '') line
      then spaced_fields (map strip (re_split_ws line))
      else Fields (Some line) None None None)"

text \<open>
  One turn of the loop: \<open>Inr None\<close> when the line adds nothing, \<open>Inr (Some item)\<close> when it adds
  an item, \<open>Inl e\<close> when an exception leaves the loop. Only \<open>ValueError\<close> is caught.
\<close>

definition parse_line :: "string \<Rightarrow> py_error + mawb_item option" where
  "parse_line raw_line =
     (let line = strip raw_line in
      if line = [] then Inr None
      else (case line_fields_of line of
              Continue \<Rightarrow> Inr None
            | Fields mawb_raw ac cu hawbs \<Rightarrow>
                (case normalize_mawb mawb_raw of
                   Inl ValueError \<Rightarrow> Inr None
                 | Inl TypeError \<Rightarrow> Inl TypeError
                 | Inr normalized_mawb \<Rightarrow>
                     Inr (Some \<lparr>mawb = normalized_mawb, airport_code = opt_or_none ac,
                                customer = opt_or_none cu, checkbook_hawbs = hawbs\<rparr>))))"

fun parse_lines :: "string list \<Rightarrow> py_error + mawb_item list" where
  "parse_lines [] = Inr []"
| "parse_lines (l # ls) =
     (case parse_line l of
        Inl e \<Rightarrow> Inl e
      | Inr r \<Rightarrow> (case parse_lines ls of
                    Inl e \<Rightarrow> Inl e
                  | Inr items \<Rightarrow> Inr ((case r of None \<Rightarrow> [] | Some item \<Rightarrow> [item]) @ items)))"

definition parse_mawb_input :: "string \<Rightarrow> py_error + mawb_item list" where
  "parse_mawb_input text =
     (if strip text = [] then Inr [] else parse_lines (split_on NL (strip text)))"


subsection \<open>utils/mawb\_parser.py\<close>

text \<open>
  The parser the window calls. It tells a MAWB by the number of digits in a field, skips a
  line whose \<open>mawb_raw\<close> is \<open>None\<close>, and first rebuilds rows from a paste that has one cell on
  each line. The writes to the debug log are inside \<open>try ... except: pass\<close> and are left out.
\<close>

definition mawb_like :: "string \<Rightarrow> bool" where
  "mawb_like s = (length (digits_of s) = 11)"

definition delimited_fields_u :: "string list \<Rightarrow> line_fields" where
  "delimited_fields_u parts =
     (if 5 \<le> length parts then
        (if mawb_like (parts ! 4)
         then Fields (Some (parts ! 4)) (or_none (parts ! 0)) (or_none (parts ! 1)) (or_none (parts ! 3))
         else Fields None None None None)
      else if 3 \<le> length parts then
        Fields (Some (parts ! 2)) (or_none (parts ! 0)) (or_none (parts ! 1)) None
      else if length parts = 2 then
        (if mawb_like (parts ! 0) then
           Fields (Some (parts ! 0))
             (if parts ! 1 \<noteq> [] \<and> \<not> mawb_like (parts ! 1) then Some (parts ! 1) else None) None None
         else if mawb_like (parts ! 1) then
           Fields (Some (parts ! 1))
             (if parts ! 0 \<noteq> [] \<and> \<not> mawb_like (parts ! 0) then Some (parts ! 0) else None) None None
         else Continue)
      else Fields (Some (parts ! 0)) None None None)"

definition spaced_fields_u :: "string list \<Rightarrow> line_fields" where
  "spaced_fields_u parts =
     (case find_index_from mawb_like 0 parts of
        Some mawb_idx \<Rightarrow>
          (if 5 \<le> length parts \<and> mawb_idx = 4
           then Fields (Some (parts ! 4)) (or_none (parts ! 0)) (or_none (parts ! 1)) (or_none (parts ! 3))
           else (let before_mawb = take mawb_idx parts in
                 if 2 \<le> length before_mawb
                 then Fields (Some (parts ! mawb_idx)) (or_none (before_mawb ! 0)) (or_none (before_mawb ! 1)) None
                 else if length before_mawb = 1
                 then Fields (Some (parts ! mawb_idx)) (or_none (before_mawb ! 0)) None None
                 else Fields (Some (parts ! mawb_idx)) None None None))
      | None \<Rightarrow>
          Fields (Some (parts ! 0))
            (if 1 < length parts then Some (parts ! 1) else None)
            (if 2 < length parts then Some (parts ! 2) else None) None)"

definition line_fields_of_u :: "string \<Rightarrow> line_fields" where
  "line_fields_of_u line =
     (if TAB \<in> set line then delimited_fields_u (map strip (split_on TAB line))
      else if CHR '','' \<in> set line then delimited_fields_u (map strip (split_on (CHR '','') line))
      else if re_search_s2 line \<or> 2 \<le> count_char (CHR '' '') line
      then spaced_fields_u (map strip (re_split_ws line))
      else Fields (Some line) None None None)"

definition parse_line_u :: "string \<Rightarrow> mawb_item list" where
  "parse_line_u raw_line =
     (let line = strip raw_line in
      if line = [] then []
      else (case line_fields_of_u line of
              Continue \<Rightarrow> []
            | Fields None ac cu hawbs \<Rightarrow> []
            | Fields (Some raw) ac cu hawbs \<Rightarrow>
                (case normalize_mawb (Some raw) of
                   Inl e \<Rightarrow> []
                 | Inr normalized_mawb \<Rightarrow>
                     [\<lparr>mawb = normalized_mawb, airport_code = opt_or_none ac,
                       customer = opt_or_none cu, checkbook_hawbs = hawbs\<rparr>])))"

text \<open>\<open>all_lines[a:b]\<close>.\<close>

definition slice :: "'a list \<Rightarrow> nat \<Rightarrow> nat \<Rightarrow> 'a list" where
  "slice xs a b = take (b - a) (drop a xs)"

text \<open>
  The inner loop \<open>for j in range(i, min(i + 10, len(all_lines)))\<close>: the index at which it
  breaks, or \<open>None\<close> when it ends with \<open>found_mawb\<close> false.
\<close>

fun scan_ahead :: "string list \<Rightarrow> nat \<Rightarrow> nat list \<Rightarrow> nat option" where
  "scan_ahead all_lines i [] = None"
| "scan_ahead all_lines i (j # js) =
     (if mawb_like (all_lines ! j) then
        (if 4 \<le> j - i then Some j
         else if 2 \<le> j - i then Some j
         else scan_ahead all_lines i js)
      else scan_ahead all_lines i js)"

text \<open>The loop \<open>while i < len(all_lines)\<close>, entered at \<open>i\<close>; the result is what it appends.\<close>

function reconstruct_from :: "string list \<Rightarrow> nat \<Rightarrow> string list" where
  "reconstruct_from all_lines i =
     (if i < length all_lines then
        (if i + 4 < length all_lines \<and> mawb_like (all_lines ! (i + 4))
         then join [TAB] (slice all_lines i (i + 5)) # reconstruct_from all_lines (i + 5)
         else if i + 2 < length all_lines \<and> mawb_like (all_lines ! (i + 2))
         then join [TAB] (slice all_lines i (i + 3)) # reconstruct_from all_lines (i + 3)
         else (case scan_ahead all_lines i [i ..< min (i + 10) (length all_lines)] of
                 Some j \<Rightarrow> join [TAB] (slice all_lines i (j + 1)) # reconstruct_from all_lines (j + 1)
               | None \<Rightarrow> reconstruct_from all_lines (i + 1)))
      else [])"
  by pat_completeness auto
termination
proof (relation "measure (\<lambda>(all_lines, i). length all_lines - i)")
  fix all_lines :: "string list" and i j :: nat
  assume "i < length all_lines"
    and found: "scan_ahead all_lines i [i ..< min (i + 10) (length all_lines)] = Some j"
  have "scan_ahead all_lines i js = Some j \<Longrightarrow> j \<in> set js" for js
    by (induction js) (auto split: if_splits)
  from this [OF found] show
    "((all_lines, j + 1), (all_lines, i)) \<in> measure (\<lambda>(all_lines, i). length all_lines - i)"
    by auto
qed auto

declare reconstruct_from.simps [simp del]

definition parse_mawb_input_u :: "string \<Rightarrow> mawb_item list" where
  "parse_mawb_input_u text =
     (if strip text = [] then []
      else (let text_stripped = strip text;
                has_tabs = (TAB \<in> set text_stripped);
                all_lines = filter (\<lambda>l. l \<noteq> []) (map strip (split_on NL text_stripped));
                reconstructed_lines =
                  (if \<not> has_tabs \<and> 1 < length all_lines then reconstruct_from all_lines 0 else []);
                text_final =
                  (if reconstructed_lines \<noteq> [] then join [NL] reconstructed_lines else text_stripped)
            in concat (map parse_line_u (split_on NL text_final))))"

section \<open>Dates and the Custom Report request\<close>

text \<open>
  A naive \<open>datetime\<close> is its proleptic Gregorian ordinal (1 for 0001-01-01, as
  \<open>date.toordinal()\<close>) and the microseconds since midnight. A \<open>timedelta\<close> is a number of
  microseconds; its \<open>days\<close> attribute is the floor of the division by one day.
\<close>

record datetime =
  ordinal :: int
  micros :: int

definition day_micros :: int where
  "day_micros = 86400000000"

definition max_ordinal :: int where
  "max_ordinal = 3652059"

definition valid_datetime :: "datetime \<Rightarrow> bool" where
  "valid_datetime t = (1 \<le> ordinal t \<and> ordinal t \<le> max_ordinal \<and> 0 \<le> micros t \<and> micros t < day_micros)"

definition total_micros :: "datetime \<Rightarrow> int" where
  "total_micros t = ordinal t * day_micros + micros t"

definition datetime_sub :: "datetime \<Rightarrow> datetime \<Rightarrow> int" where
  "datetime_sub a b = total_micros a - total_micros b"

definition timedelta_days :: "int \<Rightarrow> int" where
  "timedelta_days delta = delta div day_micros"

datatype date_error = OverflowError

definition add_days :: "datetime \<Rightarrow> int \<Rightarrow> date_error + datetime" where
  "add_days t n =
     (if 1 \<le> ordinal t + n \<and> ordinal t + n \<le> max_ordinal
      then Inr (t\<lparr>ordinal := ordinal t + n\<rparr>) else Inl OverflowError)"

text \<open>Year, month and day of an ordinal.\<close>

definition ymd :: "int \<Rightarrow> int \<times> int \<times> int" where
  "ymd n =
     (let z = n + 305;
          era = z div 146097;
          doe = z mod 146097;
          yoe = (doe - doe div 1460 + doe div 36524 - doe div 146096) div 365;
          doy = doe - (365 * yoe + yoe div 4 - yoe div 100);
          mp = (5 * doy + 2) div 153;
          d = doy - (153 * mp + 2) div 5 + 1;
          m = (if mp < 10 then mp + 3 else mp - 9);
          y = yoe + era * 400 + (if m \<le> 2 then 1 else 0)
      in (y, m, d))"

text \<open>The character of a decimal digit, for \<open>0 \<le> d \<le> 9\<close>.\<close>

definition digit_char :: "int \<Rightarrow> char" where
  "digit_char d = ''0123456789'' ! nat d"

definition two_digits :: "int \<Rightarrow> string" where
  "two_digits n = [digit_char ((n div 10) mod 10), digit_char (n mod 10)]"

text \<open>\<open>strftime("%m%d%y")\<close> and \<open>strftime("%m/%d/%y")\<close>.\<close>

definition strftime_mmddyy :: "datetime \<Rightarrow> string" where
  "strftime_mmddyy t = (case ymd (ordinal t) of (y, m, d) \<Rightarrow> two_digits m @ two_digits d @ two_digits (y mod 100))"

definition strftime_mm_dd_yy :: "datetime \<Rightarrow> string" where
  "strftime_mm_dd_yy t =
     (case ymd (ordinal t) of (y, m, d) \<Rightarrow> two_digits m @ ''/'' @ two_digits d @ ''/'' @ two_digits (y mod 100))"

text \<open>
  \<open>Format.template_payload\<close>: the field lists and \<open>defaultValues\<close>. A list that is absent is
  the empty list, as \<open>template_payload.get(key, [])\<close> gives. A value of the form is a string
  or a list of strings.
\<close>

record template_payload =
  headerFields :: "string list"
  manifestFields :: "string list"
  invoiceFields :: "string list"
  lineFields :: "string list"
  tariffFields :: "string list"
  defaultValues :: "(string \<times> string) list"

datatype form_value = FormStr string | FormList "string list"

type_synonym form_data = "(string \<times> form_value) list"

text \<open>\<open>payload.update(default_values)\<close>: every pair is stored, in order.\<close>

fun update_all :: "(string \<times> 'v) list \<Rightarrow> (string \<times> 'v) list \<Rightarrow> (string \<times> 'v) list" where
  "update_all [] payload = payload"
| "update_all ((k, v) # kvs) payload = update_all kvs (AList.update k v payload)"

definition set_if_nonempty :: "string \<Rightarrow> string list \<Rightarrow> form_data \<Rightarrow> form_data" where
  "set_if_nonempty key field_list payload =
     (if field_list \<noteq> [] then AList.update key (FormList field_list) payload else payload)"

text \<open>
  \<open>_build_custom_report_payload\<close>; \<open>today\<close> is what \<open>datetime.now()\<close> returns.
\<close>

definition build_custom_report_payload ::
  "datetime \<Rightarrow> template_payload \<Rightarrow> string \<Rightarrow> datetime \<Rightarrow> date_error + form_data" where
  "build_custom_report_payload today tp mawb_digits oldest_entry =
     (let payload0 = AList.update ''templateId'' (FormStr ''0'') [];
          days_old = timedelta_days (datetime_sub today oldest_entry)
      in case (if 25 \<le> days_old then add_days oldest_entry 25 else Inr today) of
           Inl e \<Rightarrow> Inl e
         | Inr end_date \<Rightarrow>
             (let payload1 = AList.update ''begin'' (FormStr (strftime_mmddyy oldest_entry)) payload0;
                  payload2 = AList.update ''end'' (FormStr (strftime_mmddyy end_date)) payload1;
                  payload3 = AList.update ''masterBill'' (FormStr (digits_of mawb_digits)) payload2;
                  payload4 = update_all (map (\<lambda>(k, v). (k, FormStr v)) (defaultValues tp)) payload3;
                  payload5 = set_if_nonempty ''headerFields'' (headerFields tp) payload4;
                  payload6 = set_if_nonempty ''manifestFields'' (manifestFields tp) payload5;
                  payload7 = set_if_nonempty ''invoiceFields'' (invoiceFields tp) payload6;
                  payload8 = set_if_nonempty ''lineFields'' (lineFields tp) payload7;
                  payload9 = set_if_nonempty ''tariffFields'' (tariffFields tp) payload8
              in Inr payload9))"

text \<open>
  The dates the specification asks for, by its words: \<open>begin\<close> is the oldest entry date, and
  \<open>end\<close> is the oldest entry date plus 25 days when today minus the oldest entry date is at
  least 25 days, and today otherwise.
\<close>

definition claimed_begin :: "datetime \<Rightarrow> string" where
  "claimed_begin oldest_entry = strftime_mmddyy oldest_entry"

definition claimed_end :: "datetime \<Rightarrow> datetime \<Rightarrow> string" where
  "claimed_end today oldest_entry =
     (if 25 * day_micros \<le> total_micros today - total_micros oldest_entry
      then strftime_mmddyy (oldest_entry\<lparr>ordinal := ordinal oldest_entry + 25\<rparr>)
      else strftime_mmddyy today)"

section \<open>The pipeline for one MAWB\<close>

text \<open>
  \<open>NetChbDutyRunner.process_mawb\<close> (playwright\_runner.py) and
  \<open>StandaloneDutyService.process_mawb\<close> (duty\_service.py). Everything outside the process is
  a field of the record \<open>world\<close>: what each request answers, what each library call returns,
  and where one of them raises (\<open>Inl\<close> with the message of the exception). The summary is a
  Python \<open>dict\<close> of strings, kept as an association list in insertion order. The state of a
  run is the summary and the list of the outside calls made so far, in which the verdict of
  the verification before the download is entered too (the code writes it to the log). The
  other calls of \<open>self.log\<close> are left out.
\<close>

type_synonym summary = "(string \<times> string) list"

record sections =
  ams :: bool
  entries :: bool
  custom :: bool
  download_7501_pdf :: bool

datatype verdict = Passed | Failed | Raised

datatype event =
  AmsSearch
| AmsMaster string
| EntriesSearch
| CustomReportPost form_data
| ExcelParse
| ExcelUpload
| Verification verdict
| PdfDownload
| PdfExtract
| PdfUpload

record run_state =
  summary :: summary
  trace :: "event list"

definition set_key :: "string \<Rightarrow> string \<Rightarrow> run_state \<Rightarrow> run_state" where
  "set_key k v st = st\<lparr>summary := AList.update k v (summary st)\<rparr>"

definition emit :: "event \<Rightarrow> run_state \<Rightarrow> run_state" where
  "emit ev st = st\<lparr>trace := trace st @ [ev]\<rparr>"

text \<open>\<open>str(n)\<close> for an integer.\<close>

function str_nat :: "nat \<Rightarrow> string" where
  "str_nat n = (if n < 10 then [digit_char (int n)] else str_nat (n div 10) @ [digit_char (int (n mod 10))])"
  by pat_completeness auto
termination
  by (relation "measure id") auto

declare str_nat.simps [simp del]

definition str_int :: "int \<Rightarrow> string" where
  "str_int i = (if i < 0 then ''-'' @ str_nat (nat (- i)) else str_nat (nat i))"

text \<open>\<open>_normalize_mawb\<close> of the runner: the digits, or \<open>ValueError\<close>.\<close>

definition runner_normalize_mawb :: "string \<Rightarrow> string + string" where
  "runner_normalize_mawb m =
     (let digits = digits_of m in
      if length digits \<noteq> 11 then Inl ''MAWB must contain exactly 11 digits'' else Inr digits)"

text \<open>The dictionary \<open>summary\<close> as \<open>process_mawb\<close> creates it.\<close>

definition initial_summary :: "string \<Rightarrow> string option \<Rightarrow> summary" where
  "initial_summary digits checkbook =
     [(''MAWB Number'', digits),
      (''AMS Total HAWBs'', ''N/A''),
      (''AMS Duty'', ''N/A''),
      (''AMS Total T-11 Entries'', ''N/A''),
      (''AMS Entries Accepted'', ''N/A''),
      (''Rejected Entries'', ''N/A''),
      (''7501 Total T-11 Entries'', ''N/A''),
      (''7501 Total Houses'', ''N/A''),
      (''7501 Duty'', ''N/A''),
      (''Report Duty'', ''N/A''),
      (''Report Total House'', ''N/A''),
      (''Total Informal Duty'', ''N/A''),
      (''Complete Total Duty'', ''N/A''),
      (''Entry Date'', ''N/A''),
      (''Cargo Release Date'', ''N/A''),
      (''7501 Batch PDF URL'', ''N/A''),
      (''Checkbook HAWBs'', (case checkbook of None \<Rightarrow> ''N/A'' | Some c \<Rightarrow> strip c))]"

text \<open>The seventeen keys that section 6 of the specification lists.\<close>

definition fixed_keys :: "string list" where
  "fixed_keys =
     [''MAWB Number'', ''AMS Total HAWBs'', ''AMS Duty'', ''AMS Total T-11 Entries'',
      ''AMS Entries Accepted'', ''Rejected Entries'', ''7501 Total T-11 Entries'',
      ''7501 Total Houses'', ''7501 Duty'', ''Report Duty'', ''Report Total House'',
      ''Total Informal Duty'', ''Complete Total Duty'', ''Entry Date'', ''Cargo Release Date'',
      ''7501 Batch PDF URL'', ''Checkbook HAWBs'']"

subsection \<open>Cookies\<close>

record cookie =
  cookie_name :: "string option"
  cookie_value :: "string option"

definition nonempty :: "string option \<Rightarrow> bool" where
  "nonempty x = (case x of None \<Rightarrow> False | Some s \<Rightarrow> s \<noteq> [])"

text \<open>\<open>_load_cookies_from_storage_state\<close>.\<close>

fun load_cookies :: "cookie list \<Rightarrow> (string \<times> string) list \<Rightarrow> (string \<times> string) list" where
  "load_cookies [] cookies = cookies"
| "load_cookies (c # cs) cookies =
     load_cookies cs
       (if nonempty (cookie_name c) \<and> nonempty (cookie_value c)
        then AList.update (the (cookie_name c)) (the (cookie_value c)) cookies
        else cookies)"

subsection \<open>The AMS section\<close>

text \<open>
  The search page as \<open>_parse_ams_search_results\<close> reads it through BeautifulSoup: whether
  \<open>div#resultsDiv\<close>, its table and the table's body are there, the text of the document, and
  for each row of class \<open>light\<close> or \<open>dark\<close> the number of its cells, the absolute address of
  the link in its first cell (\<open>None\<close> without a link or with an empty \<open>href\<close>), and the
  stripped texts of its sixth and seventh cell.
\<close>

record ams_row =
  n_cells :: nat
  row_master_link :: "string option"
  arrival_text :: string
  hawbs_text :: string

record ams_search_page =
  has_results_div :: bool
  has_table :: bool
  has_tbody :: bool
  page_text :: string
  result_rows :: "ams_row list"

datatype ams_search_data =
  MasterNotFound
| SearchData (master_link: "string option") (total_hawbs: string) (arrival_date: string)

definition or_na :: "string \<Rightarrow> string" where
  "or_na s = (if s = [] then ''N/A'' else s)"

definition parse_ams_search_results :: "ams_search_page \<Rightarrow> ams_search_data option" where
  "parse_ams_search_results page =
     (if \<not> has_results_div page then None
      else if \<not> has_table page then None
      else if \<not> has_tbody page then None
      else if str_contains ''there is no awb'' (lower (page_text page))
              \<or> str_contains ''no awb'' (lower (page_text page))
      then Some MasterNotFound
      else (case result_rows page of
              [] \<Rightarrow> Some MasterNotFound
            | first_row # _ \<Rightarrow>
                if n_cells first_row < 7 then None
                else Some (SearchData (row_master_link first_row)
                             (or_na (hawbs_text first_row)) (or_na (arrival_text first_row)))))"

text \<open>
  The dictionary \<open>_parse_ams_master_page\<close> returns. Its three counts are always written as
  \<open>str(int(...))\<close> or \<open>"0"\<close>, so they are kept as integers here.
\<close>

record ams_master_data =
  duty :: string
  t11_entries :: int
  entries_accepted :: int
  houses_7501 :: int

subsection \<open>What the sections read from outside\<close>

record entry_row =
  entry_date :: datetime
  link :: string
  query_string :: string

text \<open>The dictionary \<open>_parse_entries_search_results\<close> returns.\<close>

record entries_search_data =
  found_entry_rows :: "entry_row list"
  search_entries_not_found :: bool
  oldest_entry_date :: "datetime option"

text \<open>
  The dictionary \<open>_process_entries_section_http\<close> returns; the key \<open>entry_rows\<close> is absent
  when the entries were not found.
\<close>

record entries_data =
  oldest_entry :: "datetime option"
  entry_rows :: "entry_row list option"
  entries_not_found :: bool

text \<open>The six values \<open>_parse_fte_match_excel\<close> and \<open>_parse_shoaib_match_excel\<close> return.\<close>

record report_fields =
  report_duty :: string
  report_total_house :: string
  total_informal_duty :: string
  complete_total_duty :: string
  report_entry_date :: string
  cargo_release_date :: string

record format_record =
  template_identifier :: string
  fr_template_payload :: "template_payload option"

text \<open>
  The type \<open>'f\<close> stands for Python's \<open>float\<close>. The functions of the language on it are
  parameters of the model: \<open>float(s)\<close> on a string (\<open>None\<close> for \<open>ValueError\<close>), zero,
  \<open>==\<close>, \<open>-\<close>, \<open>abs\<close>, \<open>\<le>\<close>, the literal \<open>0.01\<close> and the format \<open>.2f\<close>.
\<close>

record 'f float_ops =
  py_float :: "string \<Rightarrow> 'f option"
  f_zero :: 'f
  f_eq :: "'f \<Rightarrow> 'f \<Rightarrow> bool"
  f_sub :: "'f \<Rightarrow> 'f \<Rightarrow> 'f"
  f_abs :: "'f \<Rightarrow> 'f"
  f_le :: "'f \<Rightarrow> 'f \<Rightarrow> bool"
  f_tolerance :: 'f
  f_format2 :: "'f \<Rightarrow> string"

text \<open>
  \<open>pdf_download\<close> is what \<open>_download_7501_batch_pdf_http\<close> does: it raises, returns \<open>None\<close>,
  or returns a path, with whether the file exists. \<open>pdf_extract\<close> is the import and the call
  of \<open>extract_entries_and_duty_from_pdf\<close>, whose module is not among the sources.
  \<open>gate_fault\<close> is an exception raised by a statement inside the \<open>try\<close> block of the
  verification before the download.
\<close>

record 'f world =
  page_present :: bool
  context_present :: bool
  ams_storage_state :: "string + cookie list"
  ams_search_response :: "string + ams_search_page"
  ams_master_response :: "string + ams_master_data"
  entries_storage_state :: "string + cookie list"
  entries_search_response :: "string + entries_search_data option"
  now :: datetime
  custom_storage_state :: "string + cookie list"
  custom_response :: "string + string"
  custom_file_save :: "string option"
  excel_parse :: "string + report_fields"
  excel_upload :: "string + string \<times> string"
  pdf_storage_state :: "string + cookie list"
  gate_fault :: "string option"
  pdf_download :: "string + bool option"
  pdf_extract :: "string + int \<times> 'f"
  pdf_upload :: "string + string \<times> string option"
  broker_found :: bool
  found_format :: "format_record option"
  session_setup :: "string option"
  ensure_storage_error :: "string option"
  service_excel_upload :: "string + string \<times> string"
  upsert_success_error :: "string option"
  upsert_failed_error :: "string option"

text \<open>\<open>_process_ams_section_http\<close>: the exception it raises, if any, and the state it leaves.\<close>

definition process_ams_section :: "'f world \<Rightarrow> string \<Rightarrow> run_state \<Rightarrow> string option \<times> run_state" where
  "process_ams_section W mawb_digits st =
     (if \<not> context_present W then (Some ''Context not initialized'', st)
      else case ams_storage_state W of
        Inl e \<Rightarrow> (Some e, st)
      | Inr cs \<Rightarrow>
          if load_cookies cs [] = [] then (Some ''No cookies found in session'', st)
          else (let st1 = emit AmsSearch st in
            case ams_search_response W of
              Inl e \<Rightarrow> (Some (''AMS HTTP STEP 1 failed: '' @ e), st1)
            | Inr page \<Rightarrow>
                (case parse_ams_search_results page of
                   Some MasterNotFound \<Rightarrow> (None, set_key ''Master Status'' ''Not Found'' st1)
                 | None \<Rightarrow> (Some ''AMS HTTP STEP 2 ERROR: Failed to parse search results'', st1)
                 | Some (SearchData mlink hawbs arrival) \<Rightarrow>
                     (let st2 = set_key ''AMS Arrival Date'' arrival
                                  (set_key ''AMS Total HAWBs'' hawbs st1) in
                      if \<not> nonempty mlink
                      then (Some ''AMS HTTP STEP 2 ERROR: No master link found in search results'', st2)
                      else (let st3 = emit (AmsMaster (the mlink)) st2 in
                        case ams_master_response W of
                          Inl e \<Rightarrow> (Some (''AMS HTTP STEP 3 failed: '' @ e), st3)
                        | Inr md \<Rightarrow>
                            (None,
                             set_key ''Rejected Entries'' (str_int (t11_entries md - entries_accepted md))
                              (set_key ''7501 Total Houses'' (str_int (houses_7501 md))
                               (set_key ''AMS Entries Accepted'' (str_int (entries_accepted md))
                                (set_key ''AMS Total T-11 Entries'' (str_int (t11_entries md))
                                 (set_key ''AMS Duty'' (duty md) st3))))))))))"

text \<open>\<open>_process_entries_section_http\<close>: what it raises or returns, and the state it leaves.\<close>

definition process_entries_section ::
  "'f world \<Rightarrow> string \<Rightarrow> run_state \<Rightarrow> (string + entries_data) \<times> run_state" where
  "process_entries_section W mawb_digits st =
     (if \<not> context_present W then (Inl ''Context not initialized'', st)
      else case entries_storage_state W of
        Inl e \<Rightarrow> (Inl e, st)
      | Inr cs \<Rightarrow>
          if load_cookies cs [] = [] then (Inl ''No cookies found in session'', st)
          else (let st1 = emit EntriesSearch st in
            case entries_search_response W of
              Inl e \<Rightarrow> (Inl (''ENTRIES HTTP STEP 1 failed: '' @ e), st1)
            | Inr None \<Rightarrow> (Inl ''ENTRIES HTTP STEP 2 ERROR: Failed to parse search results'', st1)
            | Inr (Some search_data) \<Rightarrow>
                if search_entries_not_found search_data
                then (Inr \<lparr>oldest_entry = None, entry_rows = None, entries_not_found = True\<rparr>,
                      set_key ''Entries Status'' ''Not Found'' st1)
                else (Inr \<lparr>oldest_entry = oldest_entry_date search_data,
                           entry_rows = Some (found_entry_rows search_data),
                           entries_not_found = False\<rparr>,
                      (case oldest_entry_date search_data of
                         None \<Rightarrow> st1
                       | Some d \<Rightarrow> set_key ''Entry Date'' (strftime_mm_dd_yy d) st1))))"

text \<open>
  \<open>_process_custom_report\<close> and \<open>_process_custom_report_http\<close>: what they raise, or the
  dictionary \<open>report_summary\<close> they return beside the path of the file, and the outside calls
  they make.
\<close>

definition initial_report_summary :: summary where
  "initial_report_summary =
     [(''Report Duty'', ''N/A''), (''Report Total House'', ''N/A''),
      (''Total Informal Duty'', ''N/A''), (''Complete Total Duty'', ''N/A''),
      (''Cargo Release Date'', ''N/A'')]"

definition report_fields_items :: "report_fields \<Rightarrow> summary" where
  "report_fields_items r =
     [(''Report Duty'', report_duty r), (''Report Total House'', report_total_house r),
      (''Total Informal Duty'', total_informal_duty r), (''Complete Total Duty'', complete_total_duty r),
      (''Entry Date'', report_entry_date r), (''Cargo Release Date'', cargo_release_date r)]"

definition process_custom_report ::
  "'f world \<Rightarrow> string \<Rightarrow> datetime \<Rightarrow> format_record option \<Rightarrow> event list \<Rightarrow> (string + summary) \<times> event list" where
  "process_custom_report W mawb_digits oldest fr tr =
     (case fr of
        None \<Rightarrow> (Inl ''format_record is required for Custom Report HTTP method'', tr)
      | Some rec \<Rightarrow>
      (case fr_template_payload rec of
        None \<Rightarrow> (Inl ''template_payload is required in format_record for Custom Report HTTP method'', tr)
      | Some tp \<Rightarrow>
          if headerFields tp = [] \<or> manifestFields tp = []
          then (Inl ''template_payload must contain headerFields and manifestFields'', tr)
          else if \<not> context_present W then (Inl ''Context not initialized'', tr)
          else (case custom_storage_state W of
            Inl e \<Rightarrow> (Inl e, tr)
          | Inr cs \<Rightarrow>
              if load_cookies cs [] = [] then (Inl ''No cookies found in session'', tr)
              else (case build_custom_report_payload (now W) tp mawb_digits oldest of
                Inl e \<Rightarrow> (Inl ''OverflowError'', tr)
              | Inr form \<Rightarrow>
                  (let tr1 = tr @ [CustomReportPost form] in
                   case custom_response W of
                     Inl e \<Rightarrow> (Inl (''CUSTOM HTTP STEP 2 failed: '' @ e), tr1)
                   | Inr content_type \<Rightarrow>
                       if \<not> str_contains ''excel'' (lower content_type)
                          \<and> \<not> str_contains ''spreadsheet'' (lower content_type)
                       then (Inl (''Unexpected content type: '' @ content_type), tr1)
                       else (case custom_file_save W of
                         Some e \<Rightarrow> (Inl e, tr1)
                       | None \<Rightarrow>
                           (let tr2 = tr1 @ [ExcelParse] in
                            case excel_parse W of
                              Inl e \<Rightarrow> (Inl e, tr2)
                            | Inr parsed \<Rightarrow>
                                (let rs = update_all (report_fields_items parsed) initial_report_summary;
                                     tr3 = tr2 @ [ExcelUpload]
                                 in case excel_upload W of
                                      Inl e \<Rightarrow> (Inr rs, tr3)
                                    | Inr (storage_path, signed_url) \<Rightarrow>
                                        (Inr (AList.update ''excel_download_url'' signed_url
                                               (AList.update ''excel_storage_path'' storage_path rs)),
                                         tr3)))))))))"

subsection \<open>The verification before the download\<close>

text \<open>
  \<open>parse_value\<close> on what \<open>summary.get(key)\<close> gives. Every value of the summary is a string,
  so the branch for numbers is not taken.
\<close>

definition remove_char :: "char \<Rightarrow> string \<Rightarrow> string" where
  "remove_char c s = filter (\<lambda>x. x \<noteq> c) s"

definition parse_value :: "'f float_ops \<Rightarrow> string option \<Rightarrow> 'f" where
  "parse_value F val =
     (case val of
        None \<Rightarrow> f_zero F
      | Some s \<Rightarrow>
          (case py_float F (strip (remove_char (CHR '','') (remove_char (CHR ''$'') s))) of
             None \<Rightarrow> f_zero F
           | Some x \<Rightarrow> x))"

definition pre_pdf_gate :: "'f float_ops \<Rightarrow> summary \<Rightarrow> bool" where
  "pre_pdf_gate F sm =
     (let ams_hawbs = parse_value F (map_of sm ''AMS Total HAWBs'');
          houses = parse_value F (map_of sm ''7501 Total Houses'');
          report_houses = parse_value F (map_of sm ''Report Total House'');
          checkbook = parse_value F (map_of sm ''Checkbook HAWBs'');
          rejected = parse_value F (map_of sm ''Rejected Entries'');
          ams_duty = parse_value F (map_of sm ''AMS Duty'');
          rep_duty = parse_value F (map_of sm ''Report Duty'');
          houses_match = (f_eq F ams_hawbs houses \<and> f_eq F houses report_houses
                          \<and> f_eq F report_houses checkbook);
          rejected_ok = f_eq F rejected (f_zero F);
          duties_match = f_le F (f_abs F (f_sub F ams_duty rep_duty)) (f_tolerance F)
      in houses_match \<and> rejected_ok \<and> duties_match)"

text \<open>
  The \<open>try\<close> block around the verification: it passes, it fails, or one of its statements
  raises. \<open>should_download\<close> is true at the start, stays true when the verification passes,
  becomes false when it fails, and is set to true by the handler of the exception.
\<close>

definition initial_verification :: "'f float_ops \<Rightarrow> 'f world \<Rightarrow> summary \<Rightarrow> verdict" where
  "initial_verification F W sm =
     (case gate_fault W of
        Some e \<Rightarrow> Raised
      | None \<Rightarrow> if pre_pdf_gate F sm then Passed else Failed)"

definition should_download :: "verdict option \<Rightarrow> bool" where
  "should_download v = (case v of None \<Rightarrow> True | Some Passed \<Rightarrow> True | Some Failed \<Rightarrow> False | Some Raised \<Rightarrow> True)"

subsection \<open>The sections inside \<open>process_mawb\<close>\<close>

definition not_found :: "entries_data option \<Rightarrow> bool" where
  "not_found ed = (case ed of None \<Rightarrow> False | Some d \<Rightarrow> entries_not_found d)"

text \<open>
  The block \<open>if sections.get("custom")\<close>: whether \<open>result.download_path\<close> is set, and the state.
\<close>

definition custom_section ::
  "'f world \<Rightarrow> string \<Rightarrow> format_record option \<Rightarrow> entries_data option \<Rightarrow> run_state \<Rightarrow> bool \<times> run_state" where
  "custom_section W digits fr ed st =
     (if not_found ed then (False, st)
      else (case (case ed of None \<Rightarrow> None | Some d \<Rightarrow> oldest_entry d) of
              None \<Rightarrow> (False, st)
            | Some oldest \<Rightarrow>
                (case process_custom_report W digits oldest fr (trace st) of
                   (Inl e, tr) \<Rightarrow> (False, st\<lparr>trace := tr\<rparr>)
                 | (Inr report_summary, tr) \<Rightarrow>
                     (True, \<lparr>summary = update_all report_summary (summary st), trace = tr\<rparr>))))"

text \<open>
  The block \<open>if sections.get("download_7501_pdf")\<close>. The verification after the upload and
  the removal of the temporary file change neither the summary nor the calls made, and are
  left out.
\<close>

definition pdf_url_or_empty :: "string option \<Rightarrow> string" where
  "pdf_url_or_empty url =
     (case url of None \<Rightarrow> [] | Some u \<Rightarrow> if u \<noteq> [] \<and> strip u \<noteq> [] then u else [])"

definition after_download :: "'f float_ops \<Rightarrow> 'f world \<Rightarrow> run_state \<Rightarrow> run_state" where
  "after_download F W st =
     (let st1 = emit PdfExtract st;
          st2 = (case pdf_extract W of
                   Inl e \<Rightarrow> st1
                 | Inr (entry_count, total_duty) \<Rightarrow>
                     set_key ''7501 Duty'' (f_format2 F total_duty)
                       (set_key ''7501 Total T-11 Entries'' (str_int entry_count) st1));
          st3 = emit PdfUpload st2
      in case pdf_upload W of
           Inl e \<Rightarrow> set_key ''7501 Batch PDF URL'' [] st3
         | Inr (pdf_storage_path, pdf_url) \<Rightarrow>
             set_key ''7501 Batch PDF URL'' (pdf_url_or_empty pdf_url) st3)"

definition download_and_upload :: "'f float_ops \<Rightarrow> 'f world \<Rightarrow> run_state \<Rightarrow> run_state" where
  "download_and_upload F W st =
     (let st1 = emit PdfDownload st in
      case pdf_download W of
        Inl e \<Rightarrow> st1
      | Inr None \<Rightarrow> st1
      | Inr (Some file_exists) \<Rightarrow> if file_exists then after_download F W st1 else st1)"

definition verify_then_download ::
  "'f float_ops \<Rightarrow> 'f world \<Rightarrow> sections \<Rightarrow> run_state \<Rightarrow> run_state" where
  "verify_then_download F W secs st =
     (let v = (if ams secs \<and> custom secs then Some (initial_verification F W (summary st)) else None);
          st0 = (case v of None \<Rightarrow> st | Some x \<Rightarrow> emit (Verification x) st)
      in if \<not> should_download v then st0 else download_and_upload F W st0)"

definition pdf_section ::
  "'f float_ops \<Rightarrow> 'f world \<Rightarrow> sections \<Rightarrow> entries_data option \<Rightarrow> run_state \<Rightarrow> run_state" where
  "pdf_section F W secs ed st =
     (if not_found ed then st
      else (case (case ed of None \<Rightarrow> None | Some d \<Rightarrow> entry_rows d) of
              None \<Rightarrow> st
            | Some [] \<Rightarrow> st
            | Some (r # rs) \<Rightarrow>
                if \<not> context_present W then st
                else (case pdf_storage_state W of
                        Inl e \<Rightarrow> st
                      | Inr cs \<Rightarrow>
                          if load_cookies cs [] = [] then st
                          else verify_then_download F W secs st)))"

subsection \<open>\<open>NetChbDutyRunner.process_mawb\<close>\<close>

text \<open>
  \<open>DutyRunResult\<close>, with the two attributes \<open>status\<close> and \<open>error_message\<close> that
  \<open>process_mawb\<close> adds to the object when the master is not found.
\<close>

record duty_run_result =
  res_mawb :: string
  res_summary :: summary
  res_has_download :: bool
  res_status :: "string option"
  res_error_message :: "string option"
  res_trace :: "event list"

text \<open>Reading a result that may be an exception.\<close>

definition summary_value :: "string + duty_run_result \<Rightarrow> string \<Rightarrow> string option" where
  "summary_value x k = (case x of Inl e \<Rightarrow> None | Inr r \<Rightarrow> map_of (res_summary r) k)"

definition summary_keys :: "string + duty_run_result \<Rightarrow> string set" where
  "summary_keys x = (case x of Inl e \<Rightarrow> {} | Inr r \<Rightarrow> fst ` set (res_summary r))"

definition trace_of :: "string + duty_run_result \<Rightarrow> event list" where
  "trace_of x = (case x of Inl e \<Rightarrow> [] | Inr r \<Rightarrow> res_trace r)"

definition entries_wanted :: "sections \<Rightarrow> bool" where
  "entries_wanted secs = (entries secs \<or> custom secs \<or> download_7501_pdf secs)"

text \<open>
  The Entries block and the Custom Report block: \<open>entries_data\<close>, whether
  \<open>result.download_path\<close> is set, and the state they leave.
\<close>

definition entries_and_custom ::
  "'f world \<Rightarrow> string \<Rightarrow> sections \<Rightarrow> format_record option \<Rightarrow> run_state
     \<Rightarrow> entries_data option \<times> bool \<times> run_state" where
  "entries_and_custom W digits secs fr st1 =
     (let entries_result =
            (if entries_wanted secs
             then (case process_entries_section W digits st1 of
                     (Inl e, s) \<Rightarrow> (None, s)
                   | (Inr d, s) \<Rightarrow> (Some d, s))
             else (None, st1));
          custom_result =
            (if custom secs
             then custom_section W digits fr (fst entries_result) (snd entries_result)
             else (False, snd entries_result))
      in (fst entries_result, fst custom_result, snd custom_result))"

definition process_mawb ::
  "'f float_ops \<Rightarrow> 'f world \<Rightarrow> string \<Rightarrow> sections \<Rightarrow> format_record option \<Rightarrow> string option
     \<Rightarrow> string + duty_run_result" where
  "process_mawb F W mawb_arg secs fr checkbook =
     (if \<not> page_present W then Inl ''Page not initialized''
      else (case runner_normalize_mawb mawb_arg of
        Inl e \<Rightarrow> Inl e
      | Inr digits \<Rightarrow>
          (let st0 = \<lparr>summary = initial_summary digits checkbook, trace = []\<rparr>;
               st1 = (if ams secs then snd (process_ams_section W digits st0) else st0)
           in if ams secs \<and> map_of (summary st1) ''Master Status'' = Some ''Not Found''
              then Inr \<lparr>res_mawb = digits, res_summary = summary st1, res_has_download = False,
                        res_status = Some ''failed'', res_error_message = Some ''Master not found'',
                        res_trace = trace st1\<rparr>
              else (case entries_and_custom W digits secs fr st1 of
                      (entries_data, has_download, st3) \<Rightarrow>
                        (let st4 = (if download_7501_pdf secs
                                    then pdf_section F W secs entries_data st3
                                    else st3)
                         in Inr \<lparr>res_mawb = digits, res_summary = summary st4,
                                   res_has_download = has_download,
                                   res_status = None, res_error_message = None,
                                   res_trace = trace st4\<rparr>)))))"

subsection \<open>\<open>StandaloneDutyService.process_mawb\<close>\<close>

text \<open>
  What \<open>upsert_result\<close> is called with, and what the service returns: the rows it has stored
  in the order of the calls (a later row replaces an earlier one, the key being the same) and
  the status of the dictionary it hands back. The callbacks \<open>on_progress\<close> and \<open>on_log\<close> are
  left out. \<open>session_setup\<close> is an exception from the resource coordinator, the start of the
  browser or the login; \<open>ensure_storage_error\<close> one from \<open>self._ensure_storage()\<close>.
\<close>

record db_row =
  row_mawb :: string
  row_status :: string
  row_summary :: "summary option"
  row_artifact_path :: "string option"
  row_artifact_url :: "string option"
  row_error_message :: "string option"

record service_result =
  persisted :: "db_row list"
  ret_status :: string
  ret_error :: "string option"
  ret_summary :: "summary option"

definition truthy_key :: "summary \<Rightarrow> string \<Rightarrow> bool" where
  "truthy_key sm k = nonempty (map_of sm k)"

definition excel_artifact ::
  "'f world \<Rightarrow> duty_run_result \<Rightarrow> string + (string option \<times> string option)" where
  "excel_artifact W dr =
     (if truthy_key (res_summary dr) ''excel_storage_path'' \<and> truthy_key (res_summary dr) ''excel_download_url''
      then Inr (map_of (res_summary dr) ''excel_storage_path'', map_of (res_summary dr) ''excel_download_url'')
      else if res_has_download dr then
        (case ensure_storage_error W of
           Some e \<Rightarrow> Inl e
         | None \<Rightarrow> (case service_excel_upload W of
                      Inl e \<Rightarrow> Inl e
                    | Inr (p, u) \<Rightarrow> Inr (Some p, Some u)))
      else Inr (None, None))"

definition pdf_url_usable :: "summary \<Rightarrow> bool" where
  "pdf_url_usable sm =
     (case map_of sm ''7501 Batch PDF URL'' of
        None \<Rightarrow> False
      | Some u \<Rightarrow> u \<noteq> [] \<and> u \<noteq> ''N/A'' \<and> strip u \<noteq> [])"

text \<open>The \<open>try\<close> block: the exception that leaves it with the rows stored so far, or the result.\<close>

definition service_try ::
  "'f float_ops \<Rightarrow> 'f world \<Rightarrow> format_record \<Rightarrow> string \<Rightarrow> sections \<Rightarrow> string option
     \<Rightarrow> (string \<times> db_row list) + service_result" where
  "service_try F W fr mawb_arg secs checkbook =
     (case session_setup W of
        Some e \<Rightarrow> Inl (e, [])
      | None \<Rightarrow>
     (case process_mawb F W mawb_arg secs (Some fr) checkbook of
        Inl e \<Rightarrow> Inl (e, [])
      | Inr dr \<Rightarrow>
     (case excel_artifact W dr of
        Inl e \<Rightarrow> Inl (e, [])
      | Inr (artifact_path, artifact_url) \<Rightarrow>
     (case upsert_success_error W of
        Some e \<Rightarrow> Inl (e, [])
      | None \<Rightarrow>
          (let row = \<lparr>row_mawb = res_mawb dr, row_status = ''success'',
                      row_summary = Some (res_summary dr), row_artifact_path = artifact_path,
                      row_artifact_url = artifact_url, row_error_message = None\<rparr>
           in if pdf_url_usable (res_summary dr) \<and> ensure_storage_error W \<noteq> None
              then Inl (the (ensure_storage_error W), [row])
              else Inr \<lparr>persisted = [row], ret_status = ''success'', ret_error = None,
                        ret_summary = Some (res_summary dr)\<rparr>)))))"

definition service_process_mawb ::
  "'f float_ops \<Rightarrow> 'f world \<Rightarrow> string \<Rightarrow> sections \<Rightarrow> string option
     \<Rightarrow> string + service_result" where
  "service_process_mawb F W mawb_arg secs checkbook =
     (if \<not> broker_found W then Inl ''Broker not found''
      else (case found_format W of
        None \<Rightarrow> Inl ''Format not found''
      | Some fr \<Rightarrow>
          (case service_try F W fr mawb_arg secs checkbook of
             Inr r \<Rightarrow> Inr r
           | Inl (error_message, rows) \<Rightarrow>
               (case upsert_failed_error W of
                  Some e \<Rightarrow> Inl e
                | None \<Rightarrow>
                    Inr \<lparr>persisted = rows @
                           [\<lparr>row_mawb = mawb_arg, row_status = ''failed'', row_summary = None,
                             row_artifact_path = None, row_artifact_url = None,
                             row_error_message = Some error_message\<rparr>],
                         ret_status = ''failed'', ret_error = Some error_message,
                         ret_summary = None\<rparr>))))"

subsection \<open>A sample of the outside\<close>

text \<open>
  To run the model on concrete inputs: amounts kept exactly, as integers that count
  hundredths. \<open>parse_cents\<close> reads a string of digits with at most two digits after at most
  one point and an optional minus sign; on such a string within the range used below \<open>float\<close>
  gives the same number, and on the numbers used below the operations of \<open>float\<close> are exact.
  Beside it a world in which every request succeeds; nothing can be read from its PDF, so
  the extraction gives no entry and no duty.
\<close>

fun digits_val :: "nat \<Rightarrow> string \<Rightarrow> nat option" where
  "digits_val acc [] = Some acc"
| "digits_val acc (c # cs) =
     (if re_digit c then digits_val (10 * acc + (code_point c - 48)) cs else None)"

definition parse_unsigned :: "string \<Rightarrow> int option" where
  "parse_unsigned s =
     (case split_on (CHR ''.'') s of
        [int_part] \<Rightarrow>
          (if int_part = [] then None
           else map_option (\<lambda>w. 100 * int w) (digits_val 0 int_part))
      | [int_part, frac_part] \<Rightarrow>
          (if int_part = [] \<or> frac_part = [] \<or> 2 < length frac_part then None
           else (case (digits_val 0 int_part, digits_val 0 frac_part) of
                   (Some w, Some f) \<Rightarrow>
                     Some (100 * int w + (if length frac_part = 1 then 10 * int f else int f))
                 | _ \<Rightarrow> None))
      | _ \<Rightarrow> None)"

definition parse_cents :: "string \<Rightarrow> int option" where
  "parse_cents s =
     (case s of
        [] \<Rightarrow> None
      | c # cs \<Rightarrow> if c = CHR ''-'' then map_option uminus (parse_unsigned cs) else parse_unsigned s)"

definition format_cents :: "int \<Rightarrow> string" where
  "format_cents c =
     (if c < 0 then ''-'' else []) @ str_int (\<bar>c\<bar> div 100) @ ''.'' @ two_digits (\<bar>c\<bar> mod 100)"

definition decimal_ops :: "int float_ops" where
  "decimal_ops =
     \<lparr>py_float = parse_cents, f_zero = 0, f_eq = (=), f_sub = (-), f_abs = abs,
      f_le = (\<le>), f_tolerance = 1, f_format2 = format_cents\<rparr>"

definition session_cookie :: cookie where
  "session_cookie = \<lparr>cookie_name = Some ''JSESSIONID'', cookie_value = Some ''abc''\<rparr>"

definition sample_template :: template_payload where
  "sample_template =
     \<lparr>headerFields = [''entryNo''], manifestFields = [''houseBill''], invoiceFields = [],
      lineFields = [], tariffFields = [], defaultValues = [(''entryType'', ''01'')]\<rparr>"

definition sample_row :: entry_row where
  "sample_row =
     \<lparr>entry_date = \<lparr>ordinal = 738887, micros = 0\<rparr>,
      link = ''https://www.netchb.com/app/entry/viewEntry.do?filerCode=ABC&entryNo=1234567'',
      query_string = ''filerCode=ABC&entryNo=1234567''\<rparr>"

definition sample_world :: "int world" where
  "sample_world =
     \<lparr>page_present = True, context_present = True,
      ams_storage_state = Inr [session_cookie],
      ams_search_response =
        Inr \<lparr>has_results_div = True, has_table = True, has_tbody = True,
             page_text = ''MAWB 235-94731221'',
             result_rows = [\<lparr>n_cells = 8,
                              row_master_link = Some ''https://www.netchb.com/app/ams/mawbMenu.do?amsMawbId=1'',
                              arrival_text = ''01/02/24'', hawbs_text = ''4250''\<rparr>]\<rparr>,
      ams_master_response =
        Inr \<lparr>duty = ''$9,000.00'', t11_entries = 3, entries_accepted = 3, houses_7501 = 4250\<rparr>,
      entries_storage_state = Inr [session_cookie],
      entries_search_response =
        Inr (Some \<lparr>found_entry_rows = [sample_row], search_entries_not_found = False,
                    oldest_entry_date = Some \<lparr>ordinal = 738887, micros = 0\<rparr>\<rparr>),
      now = \<lparr>ordinal = 738897, micros = 43200000000\<rparr>,
      custom_storage_state = Inr [session_cookie],
      custom_response = Inr ''application/vnd.ms-excel'',
      custom_file_save = None,
      excel_parse =
        Inr \<lparr>report_duty = ''9000.00'', report_total_house = ''4250'',
             total_informal_duty = ''9000.00'', complete_total_duty = ''0.00'',
             report_entry_date = ''01/02/24'', cargo_release_date = ''01/03/24''\<rparr>,
      excel_upload = Inr (''duty/customizable-reports/235-94731221.xlsx'', ''https://store/x''),
      pdf_storage_state = Inr [session_cookie],
      gate_fault = None,
      pdf_download = Inr (Some True),
      pdf_extract = Inr (0, 0),
      pdf_upload = Inr (''duty/7501-batch-pdfs/235-94731221.pdf'', Some ''https://store/p''),
      broker_found = True,
      found_format = Some \<lparr>template_identifier = ''fte-match'', fr_template_payload = Some sample_template\<rparr>,
      session_setup = None,
      ensure_storage_error = None,
      service_excel_upload = Inr (''duty/customizable-reports/235-94731221.xlsx'', ''https://store/x''),
      upsert_success_error = None,
      upsert_failed_error = None\<rparr>"

text \<open>The form that the Custom Report request of the sample carries.\<close>

definition sample_form :: form_data where
  "sample_form =
     [(''templateId'', FormStr ''0''), (''begin'', FormStr ''010224''),
      (''end'', FormStr ''011224''), (''masterBill'', FormStr ''23594731221''),
      (''entryType'', FormStr ''01''), (''headerFields'', FormList [''entryNo'']),
      (''manifestFields'', FormList [''houseBill''])]"

definition all_sections :: sections where
  "all_sections = \<lparr>ams = True, entries = True, custom = True, download_7501_pdf = True\<rparr>"

subsection \<open>Sets of keys\<close>

text \<open>The keys the AMS section writes, and the keys of the dictionary the Custom Report returns.\<close>

definition ams_keys :: "string set" where
  "ams_keys = {''Master Status'', ''AMS Total HAWBs'', ''AMS Arrival Date'', ''AMS Duty'',
     ''AMS Total T-11 Entries'', ''AMS Entries Accepted'', ''7501 Total Houses'', ''Rejected Entries''}"

definition report_keys :: "string set" where
  "report_keys = {''Report Duty'', ''Report Total House'', ''Total Informal Duty'',
     ''Complete Total Duty'', ''Entry Date'', ''Cargo Release Date'',
     ''excel_storage_path'', ''excel_download_url''}"

definition entries_keys :: "string set" where
  "entries_keys = {''Entries Status'', ''Entry Date''}"

text \<open>The keys beside the seventeen that a section of the pipeline can add to the summary.\<close>

definition extra_keys :: "string set" where
  "extra_keys = {''Master Status'', ''AMS Arrival Date'', ''Entries Status'',
     ''excel_storage_path'', ''excel_download_url''}"

text \<open>The entries of the trace that the PDF block makes.\<close>

fun pdf_event :: "event \<Rightarrow> bool" where
  "pdf_event (Verification v) = True"
| "pdf_event PdfDownload = True"
| "pdf_event PdfExtract = True"
| "pdf_event PdfUpload = True"
| "pdf_event ev = False"

text \<open>The keys the PDF block writes, and the keys the verification before the download reads.\<close>

definition pdf_keys :: "string set" where
  "pdf_keys = {''7501 Total T-11 Entries'', ''7501 Duty'', ''7501 Batch PDF URL''}"

definition gate_keys :: "string set" where
  "gate_keys = {''AMS Total HAWBs'', ''7501 Total Houses'', ''Report Total House'',
     ''Checkbook HAWBs'', ''Rejected Entries'', ''AMS Duty'', ''Report Duty''}"

text \<open>
  The verification before the download by the words of the specification: the four house
  counts are equal in a chain, the rejected entries are zero, and the two duties differ by at
  most the tolerance; every value is read as a number, a missing or unreadable one as zero.
\<close>

definition claimed_number :: "'f float_ops \<Rightarrow> summary \<Rightarrow> string \<Rightarrow> 'f" where
  "claimed_number F sm key =
     (case map_of sm key of
        None \<Rightarrow> f_zero F
      | Some s \<Rightarrow>
          (case py_float F (strip (remove_char (CHR '','') (remove_char (CHR ''$'') s))) of
             None \<Rightarrow> f_zero F
           | Some x \<Rightarrow> x))"

definition claimed_gate :: "'f float_ops \<Rightarrow> summary \<Rightarrow> bool" where
  "claimed_gate F sm =
     (f_eq F (claimed_number F sm ''AMS Total HAWBs'') (claimed_number F sm ''7501 Total Houses'')
      \<and> f_eq F (claimed_number F sm ''7501 Total Houses'') (claimed_number F sm ''Report Total House'')
      \<and> f_eq F (claimed_number F sm ''Report Total House'') (claimed_number F sm ''Checkbook HAWBs'')
      \<and> f_eq F (claimed_number F sm ''Rejected Entries'') (f_zero F)
      \<and> f_le F (f_abs F (f_sub F (claimed_number F sm ''AMS Duty'') (claimed_number F sm ''Report Duty'')))
            (f_tolerance F))"

text \<open>Reading what the service returns.\<close>

definition persisted_rows :: "string + service_result \<Rightarrow> db_row list" where
  "persisted_rows x = (case x of Inl e \<Rightarrow> [] | Inr sr \<Rightarrow> persisted sr)"

text \<open>A world in which the search page of AMS says that the master does not exist.\<close>

definition no_awb_world :: "int world" where
  "no_awb_world =
     sample_world\<lparr>ams_search_response :=
       Inr \<lparr>has_results_div = True, has_table = True, has_tbody = True,
            page_text = ''There is no awb'', result_rows = []\<rparr>\<rparr>"

text \<open>Reading the summary of a result, and the trace with a raised verdict read as passed.\<close>

definition summary_of :: "string + duty_run_result \<Rightarrow> summary" where
  "summary_of x = (case x of Inl e \<Rightarrow> [] | Inr r \<Rightarrow> res_summary r)"

definition as_passed :: "event \<Rightarrow> event" where
  "as_passed ev = (if ev = Verification Raised then Verification Passed else ev)"

text \<open>What a download adds to the trace.\<close>

definition download_events :: "'f world \<Rightarrow> event list" where
  "download_events W =
     (if pdf_download W = Inr (Some True) then [PdfDownload, PdfExtract, PdfUpload] else [PdfDownload])"

section \<open>Properties of the database query executor\<close>




lemma executions_before_retry [simp]: "executions (before_retry e k st) = executions st"
  by (simp add: before_retry_def recreate_client_def Let_def)

lemma slept_before_retry [simp]: "slept (before_retry e k st) = slept st @ [wait_time k]"
  by (simp add: before_retry_def recreate_client_def Let_def)

lemma client_generation_before_retry [simp]:
  "client_generation (before_retry e k st) =
     client_generation st + (if is_connection_error e \<and> client_config_ok st then 1 else 0)"
  by (simp add: before_retry_def recreate_client_def Let_def)

lemma client_config_ok_before_retry [simp]:
  "client_config_ok (before_retry e k st) = client_config_ok st"
  by (simp add: before_retry_def recreate_client_def Let_def)




text \<open>A third failure is raised to the caller, whatever its kind: there is no fourth attempt.\<close>

lemma execute_from_last_attempt_raises:
  assumes "query 2 = Raises e"
  shows "execute_from query dflt 2 st = (Inl e, st\<lparr>executions := Suc (executions st)\<rparr>)"
  using assms
  by (simp add: execute_from.simps [of query dflt 2 st] max_retries_def Let_def)



section \<open>Properties of the input parsers\<close>

text \<open>
  Claim C2, at a line of five tab-separated columns whose fifth column has no digit: the
  parser of the service does not drop the line, it leaves with \<open>TypeError\<close>.
\<close>

theorem parse_mawb_input_raises_on_bad_fifth_column:
  "parse_mawb_input (''A'' @ [TAB] @ ''B'' @ [TAB] @ ''C'' @ [TAB] @ ''D'' @ [TAB] @ ''E'')
     = Inl TypeError"
  by code_simp

text \<open>The parser of the window drops the same line.\<close>

lemma parse_mawb_input_u_drops_bad_fifth_column:
  "parse_mawb_input_u (''A'' @ [TAB] @ ''B'' @ [TAB] @ ''C'' @ [TAB] @ ''D'' @ [TAB] @ ''E'') = []"
  by code_simp

section \<open>Properties of the pipeline\<close>

subsection \<open>Keys and outside calls of the sections\<close>

lemma str_nat_small: "n < 10 \<Longrightarrow> str_nat n = [digit_char (int n)]"
  by (simp add: str_nat.simps)

lemma str_nat_big: "\<not> n < 10 \<Longrightarrow> str_nat n = str_nat (n div 10) @ [digit_char (int (n mod 10))]"
  by (subst str_nat.simps) simp

lemma nonempty_Some [simp]: "nonempty (Some s) = (s \<noteq> [])"
  by (simp add: nonempty_def)

lemma nonempty_None [simp]: "nonempty None = False"
  by (simp add: nonempty_def)

lemma summary_set_key [simp]: "summary (set_key k v st) = AList.update k v (summary st)"
  and trace_set_key [simp]: "trace (set_key k v st) = trace st"
  by (simp_all add: set_key_def)

lemma summary_emit [simp]: "summary (emit ev st) = summary st"
  and trace_emit [simp]: "trace (emit ev st) = trace st @ [ev]"
  by (simp_all add: emit_def)

lemma keys_update [simp]: "fst ` set (AList.update k v al) = insert k (fst ` set al)"
  by (simp add: AList.dom_update)

lemma map_of_update [simp]: "map_of (AList.update k v al) k' = (if k' = k then Some v else map_of al k')"
  by (simp add: AList.update_conv')

lemma keys_update_all: "fst ` set (update_all kvs al) = fst ` set kvs \<union> fst ` set al"
  by (induction kvs al rule: update_all.induct) auto

lemma map_of_update_all_other:
  "k \<notin> fst ` set kvs \<Longrightarrow> map_of (update_all kvs al) k = map_of al k"
  by (induction kvs al rule: update_all.induct) auto

lemma ams_section_keys:
  "fst ` set (summary st) \<subseteq> fst ` set (summary (snd (process_ams_section W d st)))
   \<and> fst ` set (summary (snd (process_ams_section W d st))) \<subseteq> fst ` set (summary st) \<union> ams_keys"
  unfolding process_ams_section_def ams_keys_def
  by (auto simp: Let_def split: sum.splits option.splits ams_search_data.splits)

lemma ams_section_trace:
  "set (trace (snd (process_ams_section W d st))) \<subseteq> set (trace st) \<union> {AmsSearch} \<union> range AmsMaster"
  unfolding process_ams_section_def
  by (auto simp: Let_def split: sum.splits option.splits ams_search_data.splits)

lemma entries_section_keys:
  "fst ` set (summary st) \<subseteq> fst ` set (summary (snd (process_entries_section W d st)))
   \<and> fst ` set (summary (snd (process_entries_section W d st)))
       \<subseteq> fst ` set (summary st) \<union> entries_keys"
  unfolding process_entries_section_def entries_keys_def
  by (auto simp: Let_def split: sum.splits option.splits)

lemma entries_section_trace:
  "set (trace (snd (process_entries_section W d st))) \<subseteq> set (trace st) \<union> {EntriesSearch}"
  unfolding process_entries_section_def
  by (auto simp: Let_def split: sum.splits option.splits)

lemma custom_report_keys:
  "process_custom_report W d oldest fr tr = (Inr rs, tr') \<Longrightarrow> fst ` set rs \<subseteq> report_keys"
  unfolding process_custom_report_def report_keys_def
  by (auto simp: Let_def keys_update_all report_fields_items_def initial_report_summary_def
           split: sum.splits option.splits if_splits prod.splits)

lemma custom_report_trace:
  "set (snd (process_custom_report W d oldest fr tr))
     \<subseteq> set tr \<union> range CustomReportPost \<union> {ExcelParse, ExcelUpload}"
  unfolding process_custom_report_def
  by (auto simp: Let_def split: sum.splits option.splits if_splits prod.splits)

lemma custom_section_cases:
  assumes "custom_section W d fr ed st = (b, st')"
  shows "st' = st
       \<or> (\<exists>oldest e tr. process_custom_report W d oldest fr (trace st) = (Inl e, tr) \<and> st' = st\<lparr>trace := tr\<rparr>)
       \<or> (\<exists>oldest rs tr. process_custom_report W d oldest fr (trace st) = (Inr rs, tr)
             \<and> st' = \<lparr>summary = update_all rs (summary st), trace = tr\<rparr>)"
  using assms unfolding custom_section_def
  by (simp split: if_splits option.splits prod.splits sum.splits) blast+

lemma custom_section_keys:
  "fst ` set (summary st) \<subseteq> fst ` set (summary (snd (custom_section W d fr ed st)))
   \<and> fst ` set (summary (snd (custom_section W d fr ed st))) \<subseteq> fst ` set (summary st) \<union> report_keys"
proof -
  obtain b st' where eq: "custom_section W d fr ed st = (b, st')" by (cases "custom_section W d fr ed st")
  from custom_section_cases [OF eq] consider
      "st' = st"
    | oldest e tr where "process_custom_report W d oldest fr (trace st) = (Inl e, tr)" "st' = st\<lparr>trace := tr\<rparr>"
    | oldest rs tr where "process_custom_report W d oldest fr (trace st) = (Inr rs, tr)"
        "st' = \<lparr>summary = update_all rs (summary st), trace = tr\<rparr>"
    by blast
  then show ?thesis
  proof cases
    case 1
    with eq show ?thesis by simp
  next
    case 2
    with eq show ?thesis by simp
  next
    case 3
    from custom_report_keys [OF 3(1)] have "fst ` set rs \<subseteq> report_keys" .
    with eq 3 show ?thesis by (simp add: keys_update_all) blast
  qed
qed

lemma custom_section_trace:
  "set (trace (snd (custom_section W d fr ed st)))
     \<subseteq> set (trace st) \<union> range CustomReportPost \<union> {ExcelParse, ExcelUpload}"
proof -
  obtain b st' where eq: "custom_section W d fr ed st = (b, st')" by (cases "custom_section W d fr ed st")
  from custom_section_cases [OF eq] consider
      "st' = st"
    | oldest e tr where "process_custom_report W d oldest fr (trace st) = (Inl e, tr)" "st' = st\<lparr>trace := tr\<rparr>"
    | oldest rs tr where "process_custom_report W d oldest fr (trace st) = (Inr rs, tr)"
        "st' = \<lparr>summary = update_all rs (summary st), trace = tr\<rparr>"
    by blast
  then show ?thesis
  proof cases
    case 1
    with eq show ?thesis by auto
  next
    case 2
    with eq custom_report_trace [of W d oldest fr "trace st"] show ?thesis by simp
  next
    case 3
    with eq custom_report_trace [of W d oldest fr "trace st"] show ?thesis by simp
  qed
qed


subsection \<open>The PDF block\<close>

lemma after_download_trace: "trace (after_download F W st) = trace st @ [PdfExtract, PdfUpload]"
  unfolding after_download_def
  by (auto simp: Let_def split: sum.splits prod.splits)

lemma after_download_other:
  "k \<notin> pdf_keys \<Longrightarrow> map_of (summary (after_download F W st)) k = map_of (summary st) k"
  unfolding after_download_def pdf_keys_def
  by (auto simp: Let_def split: sum.splits prod.splits)

lemma after_download_keys:
  "fst ` set (summary st) \<subseteq> fst ` set (summary (after_download F W st))
   \<and> fst ` set (summary (after_download F W st)) \<subseteq> fst ` set (summary st) \<union> pdf_keys"
  unfolding after_download_def pdf_keys_def
  by (auto simp: Let_def split: sum.splits prod.splits)

lemma after_download_extracted:
  "pdf_extract W = Inr (n, d) \<Longrightarrow>
     map_of (summary (after_download F W st)) ''7501 Total T-11 Entries'' = Some (str_int n)
     \<and> map_of (summary (after_download F W st)) ''7501 Duty'' = Some (f_format2 F d)"
  unfolding after_download_def
  by (auto simp: Let_def split: sum.splits prod.splits)

lemma download_and_upload_cases:
  "(download_and_upload F W st = emit PdfDownload st \<and> pdf_download W \<noteq> Inr (Some True))
   \<or> (download_and_upload F W st = after_download F W (emit PdfDownload st)
       \<and> pdf_download W = Inr (Some True))"
  unfolding download_and_upload_def
  by (auto simp: Let_def split: sum.splits option.splits)

lemma download_and_upload_trace:
  "trace (download_and_upload F W st) = trace st @ [PdfDownload]
   \<or> trace (download_and_upload F W st) = trace st @ [PdfDownload, PdfExtract, PdfUpload]"
  using download_and_upload_cases [of F W st] by (auto simp: after_download_trace)

lemma download_and_upload_other:
  "k \<notin> pdf_keys \<Longrightarrow> map_of (summary (download_and_upload F W st)) k = map_of (summary st) k"
  using download_and_upload_cases [of F W st] by (auto simp: after_download_other)

lemma download_and_upload_keys:
  "fst ` set (summary st) \<subseteq> fst ` set (summary (download_and_upload F W st))
   \<and> fst ` set (summary (download_and_upload F W st)) \<subseteq> fst ` set (summary st) \<union> pdf_keys"
proof -
  from download_and_upload_cases [of F W st] show ?thesis
  proof (elim disjE conjE)
    assume "download_and_upload F W st = emit PdfDownload st"
    then show ?thesis by simp
  next
    assume eq: "download_and_upload F W st = after_download F W (emit PdfDownload st)"
    show ?thesis
      using after_download_keys [of "emit PdfDownload st" F W] unfolding eq by simp
  qed
qed

lemma download_and_upload_extracted:
  "pdf_download W = Inr (Some True) \<Longrightarrow> pdf_extract W = Inr (n, d) \<Longrightarrow>
     map_of (summary (download_and_upload F W st)) ''7501 Total T-11 Entries'' = Some (str_int n)
     \<and> map_of (summary (download_and_upload F W st)) ''7501 Duty'' = Some (f_format2 F d)"
  using download_and_upload_cases [of F W st] after_download_extracted [of W n d F "emit PdfDownload st"]
  by auto

text \<open>The three ways through the verification.\<close>

lemma verify_then_download_cases:
  "(\<not> (ams secs \<and> custom secs) \<and> verify_then_download F W secs st = download_and_upload F W st)
   \<or> (ams secs \<and> custom secs \<and> initial_verification F W (summary st) = Failed
       \<and> verify_then_download F W secs st = emit (Verification Failed) st)
   \<or> (ams secs \<and> custom secs \<and> initial_verification F W (summary st) \<noteq> Failed
       \<and> verify_then_download F W secs st
           = download_and_upload F W (emit (Verification (initial_verification F W (summary st))) st))"
  unfolding verify_then_download_def should_download_def
  by (cases "initial_verification F W (summary st)") (auto simp: Let_def)

lemma pdf_section_cases:
  "pdf_section F W secs ed st = st \<or> pdf_section F W secs ed st = verify_then_download F W secs st"
  unfolding pdf_section_def
  by (auto split: option.splits list.splits sum.splits)


subsection \<open>The blocks before the PDF block\<close>

lemma ams_section_other:
  "k \<notin> ams_keys \<Longrightarrow> map_of (summary (snd (process_ams_section W d st))) k = map_of (summary st) k"
  unfolding process_ams_section_def ams_keys_def
  by (auto simp: Let_def split: sum.splits option.splits ams_search_data.splits)

lemma entries_section_other:
  "k \<notin> entries_keys \<Longrightarrow>
     map_of (summary (snd (process_entries_section W d st))) k = map_of (summary st) k"
  unfolding process_entries_section_def entries_keys_def
  by (auto simp: Let_def split: sum.splits option.splits)

lemma custom_section_other:
  assumes "k \<notin> report_keys"
  shows "map_of (summary (snd (custom_section W d fr ed st))) k = map_of (summary st) k"
proof -
  obtain b st' where eq: "custom_section W d fr ed st = (b, st')" by (cases "custom_section W d fr ed st")
  from custom_section_cases [OF eq] consider
      "st' = st"
    | oldest e tr where "process_custom_report W d oldest fr (trace st) = (Inl e, tr)" "st' = st\<lparr>trace := tr\<rparr>"
    | oldest rs tr where "process_custom_report W d oldest fr (trace st) = (Inr rs, tr)"
        "st' = \<lparr>summary = update_all rs (summary st), trace = tr\<rparr>"
    by blast
  then show ?thesis
  proof cases
    case 1
    with eq show ?thesis by simp
  next
    case 2
    with eq show ?thesis by simp
  next
    case 3
    from custom_report_keys [OF 3(1)] assms have "k \<notin> fst ` set rs" by blast
    with eq 3 show ?thesis by (simp add: map_of_update_all_other)
  qed
qed

text \<open>The Entries block and the Custom Report block as one step.\<close>

lemma entries_and_custom_eq:
  "entries_and_custom W d secs fr st1 =
     (let sE = (if entries_wanted secs then snd (process_entries_section W d st1) else st1);
          edE = (if entries_wanted secs
                 then (case fst (process_entries_section W d st1) of Inl e \<Rightarrow> None | Inr x \<Rightarrow> Some x)
                 else None)
      in (edE,
          (if custom secs then fst (custom_section W d fr edE sE) else False),
          (if custom secs then snd (custom_section W d fr edE sE) else sE)))"
  unfolding entries_and_custom_def
  by (auto simp: Let_def split: prod.splits sum.splits)


lemma entries_and_custom_state:
  assumes "entries_and_custom W d secs fr st1 = (ed, b, st3)"
  obtains sE edE where
    "sE = st1 \<or> sE = snd (process_entries_section W d st1)"
    "st3 = sE \<or> st3 = snd (custom_section W d fr edE sE)"
proof -
  let ?sE = "if entries_wanted secs then snd (process_entries_section W d st1) else st1"
  let ?edE = "if entries_wanted secs
              then (case fst (process_entries_section W d st1) of Inl e \<Rightarrow> None | Inr x \<Rightarrow> Some x)
              else None"
  from assms have "st3 = (if custom secs then snd (custom_section W d fr ?edE ?sE) else ?sE)"
    unfolding entries_and_custom_eq Let_def by simp
  then have "st3 = ?sE \<or> st3 = snd (custom_section W d fr ?edE ?sE)"
    by (cases "custom secs") simp_all
  moreover have "?sE = st1 \<or> ?sE = snd (process_entries_section W d st1)"
    by (cases "entries_wanted secs") simp_all
  ultimately show thesis using that [of ?sE ?edE] by blast
qed

lemma entries_and_custom_other:
  assumes "entries_and_custom W d secs fr st1 = (ed, b, st3)"
    and "k \<notin> entries_keys \<union> report_keys"
  shows "map_of (summary st3) k = map_of (summary st1) k"
proof -
  from assms(2) have k1: "k \<notin> entries_keys" and k2: "k \<notin> report_keys"
    by blast+
  from entries_and_custom_state [OF assms(1)] obtain sE edE where
    sE: "sE = st1 \<or> sE = snd (process_entries_section W d st1)"
    and st3: "st3 = sE \<or> st3 = snd (custom_section W d fr edE sE)" by blast
  from sE have "map_of (summary sE) k = map_of (summary st1) k"
  proof
    assume "sE = st1" then show ?thesis by simp
  next
    assume "sE = snd (process_entries_section W d st1)"
    then show ?thesis using entries_section_other [OF k1] by simp
  qed
  moreover from st3 have "map_of (summary st3) k = map_of (summary sE) k"
  proof
    assume "st3 = sE" then show ?thesis by simp
  next
    assume "st3 = snd (custom_section W d fr edE sE)"
    then show ?thesis using custom_section_other [OF k2] by simp
  qed
  ultimately show ?thesis by simp
qed


lemma entries_and_custom_keys:
  assumes "entries_and_custom W d secs fr st1 = (ed, b, st3)"
  shows "fst ` set (summary st1) \<subseteq> fst ` set (summary st3)
       \<and> fst ` set (summary st3)
           \<subseteq> fst ` set (summary st1) \<union> entries_keys \<union> report_keys"
proof -
  from entries_and_custom_state [OF assms(1)] obtain sE edE where
    sE: "sE = st1 \<or> sE = snd (process_entries_section W d st1)"
    and st3: "st3 = sE \<or> st3 = snd (custom_section W d fr edE sE)" by blast
  define K1 where "K1 = fst ` set (summary st1)"
  define KE where "KE = fst ` set (summary sE)"
  define K3 where "K3 = fst ` set (summary st3)"
  from sE have E: "K1 \<subseteq> KE \<and> KE \<subseteq> K1 \<union> entries_keys"
  proof
    assume "sE = st1" then show ?thesis by (simp add: K1_def KE_def)
  next
    assume "sE = snd (process_entries_section W d st1)"
    then show ?thesis using entries_section_keys [of st1 W d] by (simp add: K1_def KE_def)
  qed
  from st3 have C: "KE \<subseteq> K3 \<and> K3 \<subseteq> KE \<union> report_keys"
  proof
    assume "st3 = sE" then show ?thesis by (simp add: K3_def KE_def)
  next
    assume "st3 = snd (custom_section W d fr edE sE)"
    then show ?thesis using custom_section_keys [of sE W d fr edE] by (simp add: K3_def KE_def)
  qed
  from E C have "K1 \<subseteq> K3 \<and> K3 \<subseteq> K1 \<union> entries_keys \<union> report_keys" by blast
  then show ?thesis by (simp add: K1_def K3_def)
qed

lemma entries_and_custom_trace:
  assumes "entries_and_custom W d secs fr st1 = (ed, b, st3)"
    and "ev \<in> set (trace st3)" and "pdf_event ev"
  shows "ev \<in> set (trace st1)"
proof -
  from entries_and_custom_state [OF assms(1)] obtain sE edE where
    sE: "sE = st1 \<or> sE = snd (process_entries_section W d st1)"
    and st3: "st3 = sE \<or> st3 = snd (custom_section W d fr edE sE)" by blast
  have notin: "ev \<notin> range CustomReportPost \<union> {ExcelParse, ExcelUpload} \<union> {EntriesSearch}"
    using assms(3) by (cases ev) auto
  from st3 have "ev \<in> set (trace sE)"
  proof
    assume "st3 = sE" with assms(2) show ?thesis by simp
  next
    assume "st3 = snd (custom_section W d fr edE sE)"
    with assms(2) custom_section_trace [of W d fr edE sE] notin show ?thesis by blast
  qed
  with sE show ?thesis
  proof (elim disjE)
    assume "sE = st1" and "ev \<in> set (trace sE)" then show ?thesis by simp
  next
    assume "sE = snd (process_entries_section W d st1)" and "ev \<in> set (trace sE)"
    with entries_section_trace [of W d st1] notin show ?thesis by blast
  qed
qed



subsection \<open>The whole run\<close>

lemma keys_initial_summary: "fst ` set (initial_summary d cb) = set fixed_keys"
  by (simp add: initial_summary_def fixed_keys_def)

lemma initial_url: "map_of (initial_summary d cb) ''7501 Batch PDF URL'' = Some ''N/A''"
  by (simp add: initial_summary_def)

lemma ams_keys_allowed: "ams_keys \<subseteq> set fixed_keys \<union> extra_keys"
  by (simp add: ams_keys_def fixed_keys_def extra_keys_def)

lemma entries_keys_allowed: "entries_keys \<subseteq> set fixed_keys \<union> extra_keys"
  by (simp add: entries_keys_def fixed_keys_def extra_keys_def)

lemma report_keys_allowed: "report_keys \<subseteq> set fixed_keys \<union> extra_keys"
  by (simp add: report_keys_def fixed_keys_def extra_keys_def)

lemma pdf_keys_allowed: "pdf_keys \<subseteq> set fixed_keys"
  by (simp add: pdf_keys_def fixed_keys_def)

lemma url_not_written_before_pdf:
  "''7501 Batch PDF URL'' \<notin> ams_keys" "''7501 Batch PDF URL'' \<notin> entries_keys \<union> report_keys"
  by (simp_all add: ams_keys_def entries_keys_def report_keys_def)

lemma gate_keys_not_pdf_keys: "k \<in> gate_keys \<Longrightarrow> k \<notin> pdf_keys"
  by (auto simp: gate_keys_def pdf_keys_def)

text \<open>The two ways in which the runner returns.\<close>

lemma process_mawb_Inr_cases:
  assumes "process_mawb F W m secs fr cb = Inr r"
  obtains (master_not_found) digits st1 where
      "page_present W" "runner_normalize_mawb m = Inr digits" "ams secs"
      "st1 = snd (process_ams_section W digits \<lparr>summary = initial_summary digits cb, trace = []\<rparr>)"
      "map_of (summary st1) ''Master Status'' = Some ''Not Found''"
      "r = \<lparr>res_mawb = digits, res_summary = summary st1, res_has_download = False,
             res_status = Some ''failed'', res_error_message = Some ''Master not found'',
             res_trace = trace st1\<rparr>"
  | (completed) digits st1 ed b st3 st4 where
      "page_present W" "runner_normalize_mawb m = Inr digits"
      "st1 = (if ams secs
              then snd (process_ams_section W digits \<lparr>summary = initial_summary digits cb, trace = []\<rparr>)
              else \<lparr>summary = initial_summary digits cb, trace = []\<rparr>)"
      "entries_and_custom W digits secs fr st1 = (ed, b, st3)"
      "st4 = (if download_7501_pdf secs then pdf_section F W secs ed st3 else st3)"
      "r = \<lparr>res_mawb = digits, res_summary = summary st4, res_has_download = b,
             res_status = None, res_error_message = None, res_trace = trace st4\<rparr>"
proof -
  from assms have page: "page_present W"
    unfolding process_mawb_def by (simp split: if_splits)
  from assms page obtain digits where digits: "runner_normalize_mawb m = Inr digits"
    unfolding process_mawb_def by (cases "runner_normalize_mawb m") simp_all
  define st0 where "st0 = \<lparr>summary = initial_summary digits cb, trace = []\<rparr>"
  define st1 where "st1 = (if ams secs then snd (process_ams_section W digits st0) else st0)"
  show thesis
  proof (cases "ams secs \<and> map_of (summary st1) ''Master Status'' = Some ''Not Found''")
    case True
    then have a: "ams secs" by simp
    then have st1: "st1 = snd (process_ams_section W digits st0)" by (simp add: st1_def)
    from True st1 have nf:
      "map_of (summary (snd (process_ams_section W digits st0))) ''Master Status'' = Some ''Not Found''"
      by simp
    from assms page digits a nf have
      "r = \<lparr>res_mawb = digits, res_summary = summary st1, res_has_download = False,
             res_status = Some ''failed'', res_error_message = Some ''Master not found'',
             res_trace = trace st1\<rparr>"
      unfolding process_mawb_def st1 st0_def by (simp add: Let_def)
    with a nf page digits show thesis
      using master_not_found [of digits st1] unfolding st1 st0_def by simp
  next
    case False
    obtain ed b st3 where eac: "entries_and_custom W digits secs fr st1 = (ed, b, st3)"
      by (cases "entries_and_custom W digits secs fr st1")
    define st4 where "st4 = (if download_7501_pdf secs then pdf_section F W secs ed st3 else st3)"
    from assms page digits False eac have
      "r = \<lparr>res_mawb = digits, res_summary = summary st4, res_has_download = b,
             res_status = None, res_error_message = None, res_trace = trace st4\<rparr>"
      unfolding process_mawb_def st4_def
      by (simp add: Let_def st1_def [symmetric] st0_def [symmetric])
    with page digits eac show thesis
      using completed [of digits st1 ed b st3 st4] unfolding st1_def st0_def st4_def by simp
  qed
qed

text \<open>
  The state in which the PDF block starts: no entry of the PDF block is in the trace, every
  fixed key is in the summary, no key beside the fixed and the extra ones is, and the URL of
  the PDF is still \<open>N/A\<close>.
\<close>

lemma state_before_pdf:
  assumes st1: "st1 = (if ams secs
              then snd (process_ams_section W digits \<lparr>summary = initial_summary digits cb, trace = []\<rparr>)
              else \<lparr>summary = initial_summary digits cb, trace = []\<rparr>)"
    and eac: "entries_and_custom W digits secs fr st1 = (ed, b, st3)"
  shows "\<forall>ev \<in> set (trace st3). \<not> pdf_event ev"
    and "set fixed_keys \<subseteq> fst ` set (summary st3)"
    and "fst ` set (summary st3) \<subseteq> set fixed_keys \<union> extra_keys"
    and "map_of (summary st3) ''7501 Batch PDF URL'' = Some ''N/A''"
proof -
  define st0 where "st0 = \<lparr>summary = initial_summary digits cb, trace = []\<rparr>"
  have st1': "st1 = st0 \<or> st1 = snd (process_ams_section W digits st0)"
    unfolding st1 st0_def by (cases "ams secs") simp_all
  define K0 where "K0 = fst ` set (summary st0)"
  define K1 where "K1 = fst ` set (summary st1)"
  define K3 where "K3 = fst ` set (summary st3)"
  define FK where "FK = set fixed_keys"
  have K0: "K0 = FK" by (simp add: K0_def FK_def st0_def keys_initial_summary)
  from st1' have A: "K0 \<subseteq> K1 \<and> K1 \<subseteq> K0 \<union> ams_keys"
  proof
    assume "st1 = st0" then show ?thesis by (simp add: K0_def K1_def)
  next
    assume "st1 = snd (process_ams_section W digits st0)"
    then show ?thesis using ams_section_keys [of st0 W digits] by (simp add: K0_def K1_def)
  qed
  have B: "K1 \<subseteq> K3 \<and> K3 \<subseteq> K1 \<union> entries_keys \<union> report_keys"
    using entries_and_custom_keys [OF eac] by (simp add: K1_def K3_def)
  have allowed: "ams_keys \<subseteq> FK \<union> extra_keys" "entries_keys \<subseteq> FK \<union> extra_keys"
    "report_keys \<subseteq> FK \<union> extra_keys"
    using ams_keys_allowed entries_keys_allowed report_keys_allowed by (simp_all add: FK_def)
  from K0 A B have "FK \<subseteq> K3" by blast
  then show "set fixed_keys \<subseteq> fst ` set (summary st3)" by (simp add: FK_def K3_def)
  from K0 A B allowed have "K3 \<subseteq> FK \<union> extra_keys" by blast
  then show "fst ` set (summary st3) \<subseteq> set fixed_keys \<union> extra_keys" by (simp add: FK_def K3_def)
  have t1: "\<not> pdf_event ev" if "ev \<in> set (trace st1)" for ev
  proof -
    from st1' that have "ev \<in> {AmsSearch} \<union> range AmsMaster"
    proof (elim disjE)
      assume "st1 = st0" and "ev \<in> set (trace st1)"
      then show ?thesis by (simp add: st0_def)
    next
      assume "st1 = snd (process_ams_section W digits st0)" and "ev \<in> set (trace st1)"
      then show ?thesis using ams_section_trace [of W digits st0] by (auto simp: st0_def)
    qed
    then show ?thesis by auto
  qed
  show "\<forall>ev \<in> set (trace st3). \<not> pdf_event ev"
    using entries_and_custom_trace [OF eac] t1 by blast
  have "map_of (summary st1) ''7501 Batch PDF URL'' = Some ''N/A''"
    using st1' ams_section_other [OF url_not_written_before_pdf(1), of W digits st0]
    by (auto simp: st0_def initial_url)
  then show "map_of (summary st3) ''7501 Batch PDF URL'' = Some ''N/A''"
    using entries_and_custom_other [OF eac url_not_written_before_pdf(2)] by simp
qed

lemma pdf_section_shape:
  "pdf_section F W secs ed st = st
   \<or> (\<not> (ams secs \<and> custom secs) \<and> pdf_section F W secs ed st = download_and_upload F W st)
   \<or> (ams secs \<and> custom secs \<and> initial_verification F W (summary st) = Failed
       \<and> pdf_section F W secs ed st = emit (Verification Failed) st)
   \<or> (ams secs \<and> custom secs \<and> initial_verification F W (summary st) \<noteq> Failed
       \<and> pdf_section F W secs ed st
           = download_and_upload F W (emit (Verification (initial_verification F W (summary st))) st))"
  using pdf_section_cases [of F W secs ed st] verify_then_download_cases [of secs F W st]
  by metis

lemma pdf_section_keys:
  "fst ` set (summary st) \<subseteq> fst ` set (summary (pdf_section F W secs ed st))
   \<and> fst ` set (summary (pdf_section F W secs ed st)) \<subseteq> fst ` set (summary st) \<union> pdf_keys"
proof -
  let ?v = "initial_verification F W (summary st)"
  from pdf_section_shape [of F W secs ed st] consider
      "pdf_section F W secs ed st = st"
    | "pdf_section F W secs ed st = download_and_upload F W st"
    | "pdf_section F W secs ed st = emit (Verification Failed) st"
    | "pdf_section F W secs ed st = download_and_upload F W (emit (Verification ?v) st)"
    by blast
  then show ?thesis
  proof cases
    case 1 then show ?thesis by simp
  next
    case 2 then show ?thesis using download_and_upload_keys [of st F W] by simp
  next
    case 3 then show ?thesis by simp
  next
    case 4 then show ?thesis
      using download_and_upload_keys [of "emit (Verification ?v) st" F W] by simp
  qed
qed

lemma result_keys:
  assumes "process_mawb F W m secs fr cb = Inr r"
  shows "set fixed_keys \<subseteq> fst ` set (res_summary r)
       \<and> fst ` set (res_summary r) \<subseteq> set fixed_keys \<union> extra_keys"
  using assms
proof (cases rule: process_mawb_Inr_cases)
  case (master_not_found digits st1)
  define K0 where "K0 = fst ` set (initial_summary digits cb)"
  define K1 where "K1 = fst ` set (summary st1)"
  define FK where "FK = set fixed_keys"
  have "K0 = FK" by (simp add: K0_def FK_def keys_initial_summary)
  moreover have "K0 \<subseteq> K1 \<and> K1 \<subseteq> K0 \<union> ams_keys"
    using ams_section_keys [of "\<lparr>summary = initial_summary digits cb, trace = []\<rparr>" W digits]
    unfolding master_not_found(4) K0_def K1_def by simp
  moreover have "ams_keys \<subseteq> FK \<union> extra_keys" using ams_keys_allowed by (simp add: FK_def)
  ultimately have "FK \<subseteq> K1 \<and> K1 \<subseteq> FK \<union> extra_keys" by blast
  then show ?thesis by (simp add: master_not_found(6) K1_def FK_def)
next
  case (completed digits st1 ed b st3 st4)
  note before = state_before_pdf [OF completed(3,4)]
  define K3 where "K3 = fst ` set (summary st3)"
  define K4 where "K4 = fst ` set (summary st4)"
  define FK where "FK = set fixed_keys"
  have "K3 \<subseteq> K4 \<and> K4 \<subseteq> K3 \<union> pdf_keys"
  proof (cases "download_7501_pdf secs")
    case True
    then show ?thesis using pdf_section_keys [of st3 F W secs ed] by (simp add: completed(5) K3_def K4_def)
  next
    case False
    then show ?thesis by (simp add: completed(5) K3_def K4_def)
  qed
  moreover have "FK \<subseteq> K3" "K3 \<subseteq> FK \<union> extra_keys" using before(2,3) by (simp_all add: FK_def K3_def)
  moreover have "pdf_keys \<subseteq> FK" using pdf_keys_allowed by (simp add: FK_def)
  ultimately have "FK \<subseteq> K4 \<and> K4 \<subseteq> FK \<union> extra_keys" by blast
  then show ?thesis by (simp add: completed(6) K4_def FK_def)
qed

lemma process_mawb_returns:
  "page_present W \<Longrightarrow> length (digits_of m) = 11 \<Longrightarrow> \<exists>r. process_mawb F W m secs fr cb = Inr r"
  unfolding process_mawb_def runner_normalize_mawb_def
  by (auto simp: Let_def split: prod.splits)


subsection \<open>The sample runs\<close>

lemma sample_mawb: "runner_normalize_mawb ''235-94731221'' = Inr ''23594731221''"
  by code_simp

lemma sample_page:
  "parse_ams_search_results
     \<lparr>has_results_div = True, has_table = True, has_tbody = True,
      page_text = ''MAWB 235-94731221'',
      result_rows = [\<lparr>n_cells = 8,
                       row_master_link = Some ''https://www.netchb.com/app/ams/mawbMenu.do?amsMawbId=1'',
                       arrival_text = ''01/02/24'', hawbs_text = ''4250''\<rparr>]\<rparr>
   = Some (SearchData (Some ''https://www.netchb.com/app/ams/mawbMenu.do?amsMawbId=1'') ''4250'' ''01/02/24'')"
  by code_simp

lemma no_awb_page:
  "parse_ams_search_results
     \<lparr>has_results_div = True, has_table = True, has_tbody = True,
      page_text = ''There is no awb'', result_rows = []\<rparr>
   = Some MasterNotFound"
  by code_simp

lemma str_int_sample: "str_int 3 = ''3''" "str_int 0 = ''0''" "str_int 4250 = ''4250''"
  by (simp_all add: str_int_def str_nat_small str_nat_big digit_char_def)

lemma sample_ams:
  "process_ams_section sample_world d st =
     (None,
      set_key ''Rejected Entries'' ''0''
       (set_key ''7501 Total Houses'' ''4250''
        (set_key ''AMS Entries Accepted'' ''3''
         (set_key ''AMS Total T-11 Entries'' ''3''
          (set_key ''AMS Duty'' ''$9,000.00''
           (emit (AmsMaster ''https://www.netchb.com/app/ams/mawbMenu.do?amsMawbId=1'')
            (set_key ''AMS Arrival Date'' ''01/02/24''
             (set_key ''AMS Total HAWBs'' ''4250'' (emit AmsSearch st)))))))))"
  by (simp add: process_ams_section_def sample_world_def session_cookie_def sample_page
        str_int_sample Let_def)

lemma no_awb_ams:
  "process_ams_section no_awb_world d st =
     (None, set_key ''Master Status'' ''Not Found'' (emit AmsSearch st))"
  by (simp add: process_ams_section_def no_awb_world_def sample_world_def session_cookie_def
        no_awb_page Let_def)

lemma sample_entry_date: "strftime_mm_dd_yy \<lparr>ordinal = 738887, micros = 0\<rparr> = ''01/02/24''"
  by code_simp

lemma sample_entries:
  "process_entries_section sample_world d st =
     (Inr \<lparr>oldest_entry = Some \<lparr>ordinal = 738887, micros = 0\<rparr>,
           entry_rows = Some [sample_row], entries_not_found = False\<rparr>,
      set_key ''Entry Date'' ''01/02/24'' (emit EntriesSearch st))"
  by (simp add: process_entries_section_def sample_world_def session_cookie_def Let_def
        sample_entry_date)

lemma sample_payload:
  "build_custom_report_payload \<lparr>ordinal = 738897, micros = 43200000000\<rparr> sample_template
     ''23594731221'' \<lparr>ordinal = 738887, micros = 0\<rparr>
   = Inr [(''templateId'', FormStr ''0''), (''begin'', FormStr ''010224''),
          (''end'', FormStr ''011224''), (''masterBill'', FormStr ''23594731221''),
          (''entryType'', FormStr ''01''), (''headerFields'', FormList [''entryNo'']),
          (''manifestFields'', FormList [''houseBill''])]"
  by code_simp

lemma sample_content_type: "str_contains ''excel'' (lower ''application/vnd.ms-excel'')"
  by code_simp

lemma sample_report:
  "update_all
     (report_fields_items
        \<lparr>report_duty = ''9000.00'', report_total_house = ''4250'',
         total_informal_duty = ''9000.00'', complete_total_duty = ''0.00'',
         report_entry_date = ''01/02/24'', cargo_release_date = ''01/03/24''\<rparr>)
     initial_report_summary
   = [(''Report Duty'', ''9000.00''), (''Report Total House'', ''4250''),
      (''Total Informal Duty'', ''9000.00''), (''Complete Total Duty'', ''0.00''),
      (''Cargo Release Date'', ''01/03/24''), (''Entry Date'', ''01/02/24'')]"
  by code_simp

lemma sample_template_fields:
  "headerFields sample_template \<noteq> []" "manifestFields sample_template \<noteq> []"
  by (simp_all add: sample_template_def)

lemma sample_custom_report:
  "process_custom_report sample_world ''23594731221'' \<lparr>ordinal = 738887, micros = 0\<rparr>
     (found_format sample_world) tr
   = (Inr [(''Report Duty'', ''9000.00''), (''Report Total House'', ''4250''),
           (''Total Informal Duty'', ''9000.00''), (''Complete Total Duty'', ''0.00''),
           (''Cargo Release Date'', ''01/03/24''), (''Entry Date'', ''01/02/24''),
           (''excel_storage_path'', ''duty/customizable-reports/235-94731221.xlsx''),
           (''excel_download_url'', ''https://store/x'')],
      tr @ [CustomReportPost sample_form, ExcelParse, ExcelUpload])"
  unfolding sample_form_def
  by (simp add: process_custom_report_def sample_world_def session_cookie_def Let_def
        sample_template_def [symmetric] sample_template_fields sample_payload
        sample_content_type sample_report)

lemma sample_found_format:
  "found_format sample_world = Some \<lparr>template_identifier = ''fte-match'', fr_template_payload = Some sample_template\<rparr>"
  by (simp add: sample_world_def)

lemma sample_entries_and_custom:
  "entries_and_custom sample_world ''23594731221'' all_sections (found_format sample_world) st =
     (Some \<lparr>oldest_entry = Some \<lparr>ordinal = 738887, micros = 0\<rparr>,
            entry_rows = Some [sample_row], entries_not_found = False\<rparr>,
      True,
      \<lparr>summary =
         update_all
           [(''Report Duty'', ''9000.00''), (''Report Total House'', ''4250''),
            (''Total Informal Duty'', ''9000.00''), (''Complete Total Duty'', ''0.00''),
            (''Cargo Release Date'', ''01/03/24''), (''Entry Date'', ''01/02/24''),
            (''excel_storage_path'', ''duty/customizable-reports/235-94731221.xlsx''),
            (''excel_download_url'', ''https://store/x'')]
           (AList.update ''Entry Date'' ''01/02/24'' (summary st)),
       trace = trace st @ [EntriesSearch, CustomReportPost sample_form, ExcelParse, ExcelUpload]\<rparr>)"
  by (simp add: entries_and_custom_def entries_wanted_def all_sections_def sample_entries
        custom_section_def not_found_def sample_custom_report Let_def)

lemma sample_strip: "strip ''4249'' = ''4249''" "strip ''4250'' = ''4250''"
  by code_simp+

lemma sample_numbers:
  "parse_value decimal_ops (Some ''4250'') = 425000"
  "parse_value decimal_ops (Some ''4249'') = 424900"
  "parse_value decimal_ops (Some ''0'') = 0"
  "parse_value decimal_ops (Some ''$9,000.00'') = 900000"
  "parse_value decimal_ops (Some ''9000.00'') = 900000"
  by code_simp+

lemma sample_world_fields:
  "page_present sample_world" "context_present sample_world"
  "pdf_storage_state sample_world = Inr [session_cookie]"
  "gate_fault sample_world = None"
  "pdf_download sample_world = Inr (Some True)"
  "pdf_extract sample_world = Inr (0, 0)"
  "pdf_upload sample_world = Inr (''duty/7501-batch-pdfs/235-94731221.pdf'', Some ''https://store/p'')"
  by (simp_all add: sample_world_def)

lemma all_sections_fields:
  "ams all_sections" "entries all_sections" "custom all_sections" "download_7501_pdf all_sections"
  by (simp_all add: all_sections_def)

lemma decimal_ops_fields:
  "f_zero decimal_ops = 0" "f_eq decimal_ops = (=)" "f_sub decimal_ops = (-)"
  "f_abs decimal_ops = abs" "f_le decimal_ops = (\<le>)" "f_tolerance decimal_ops = 1"
  "f_format2 decimal_ops = format_cents"
  by (simp_all add: decimal_ops_def)

lemma sample_run_4249:
  "process_mawb decimal_ops sample_world ''235-94731221'' all_sections (found_format sample_world)
     (Some ''4249'')
   = Inr \<lparr>res_mawb = ''23594731221'',
          res_summary =
            [(''MAWB Number'', ''23594731221''), (''AMS Total HAWBs'', ''4250''),
             (''AMS Duty'', ''$9,000.00''), (''AMS Total T-11 Entries'', ''3''),
             (''AMS Entries Accepted'', ''3''), (''Rejected Entries'', ''0''),
             (''7501 Total T-11 Entries'', ''N/A''), (''7501 Total Houses'', ''4250''),
             (''7501 Duty'', ''N/A''), (''Report Duty'', ''9000.00''),
             (''Report Total House'', ''4250''), (''Total Informal Duty'', ''9000.00''),
             (''Complete Total Duty'', ''0.00''), (''Entry Date'', ''01/02/24''),
             (''Cargo Release Date'', ''01/03/24''), (''7501 Batch PDF URL'', ''N/A''),
             (''Checkbook HAWBs'', ''4249''), (''AMS Arrival Date'', ''01/02/24''),
             (''excel_storage_path'', ''duty/customizable-reports/235-94731221.xlsx''),
             (''excel_download_url'', ''https://store/x'')],
          res_has_download = True, res_status = None, res_error_message = None,
          res_trace =
            [AmsSearch, AmsMaster ''https://www.netchb.com/app/ams/mawbMenu.do?amsMawbId=1'',
             EntriesSearch, CustomReportPost sample_form, ExcelParse, ExcelUpload,
             Verification Failed]\<rparr>"
  by (simp add: process_mawb_def sample_mawb sample_ams sample_entries_and_custom
        initial_summary_def sample_strip all_sections_fields sample_world_fields Let_def
        pdf_section_def not_found_def verify_then_download_def initial_verification_def
        should_download_def pre_pdf_gate_def sample_numbers session_cookie_def
        decimal_ops_fields)

lemma sample_formats: "str_int 0 = ''0''" "format_cents 0 = ''0.00''"
  by (simp_all add: format_cents_def str_int_def str_nat_small two_digits_def digit_char_def)

lemma sample_url: "pdf_url_or_empty (Some ''https://store/p'') = ''https://store/p''"
  by code_simp

lemma sample_run_4250:
  "process_mawb decimal_ops sample_world ''235-94731221'' all_sections (found_format sample_world)
     (Some ''4250'')
   = Inr \<lparr>res_mawb = ''23594731221'',
          res_summary =
            [(''MAWB Number'', ''23594731221''), (''AMS Total HAWBs'', ''4250''),
             (''AMS Duty'', ''$9,000.00''), (''AMS Total T-11 Entries'', ''3''),
             (''AMS Entries Accepted'', ''3''), (''Rejected Entries'', ''0''),
             (''7501 Total T-11 Entries'', ''0''), (''7501 Total Houses'', ''4250''),
             (''7501 Duty'', ''0.00''), (''Report Duty'', ''9000.00''),
             (''Report Total House'', ''4250''), (''Total Informal Duty'', ''9000.00''),
             (''Complete Total Duty'', ''0.00''), (''Entry Date'', ''01/02/24''),
             (''Cargo Release Date'', ''01/03/24''), (''7501 Batch PDF URL'', ''https://store/p''),
             (''Checkbook HAWBs'', ''4250''), (''AMS Arrival Date'', ''01/02/24''),
             (''excel_storage_path'', ''duty/customizable-reports/235-94731221.xlsx''),
             (''excel_download_url'', ''https://store/x'')],
          res_has_download = True, res_status = None, res_error_message = None,
          res_trace =
            [AmsSearch, AmsMaster ''https://www.netchb.com/app/ams/mawbMenu.do?amsMawbId=1'',
             EntriesSearch, CustomReportPost sample_form, ExcelParse, ExcelUpload,
             Verification Passed, PdfDownload, PdfExtract, PdfUpload]\<rparr>"
  by (simp add: process_mawb_def sample_mawb sample_ams sample_entries_and_custom
        initial_summary_def sample_strip all_sections_fields sample_world_fields Let_def
        pdf_section_def not_found_def verify_then_download_def initial_verification_def
        should_download_def pre_pdf_gate_def sample_numbers session_cookie_def
        decimal_ops_fields download_and_upload_def after_download_def sample_formats sample_url)


subsection \<open>The keys of the summary\<close>

text \<open>
  Claim C5, as amended. Every run that returns (the page is there and the MAWB has eleven
  digits) returns a summary that has every one of the seventeen fixed keys, and beside them
  only keys among \<open>Master Status\<close>, \<open>AMS Arrival Date\<close>, \<open>Entries Status\<close>,
  \<open>excel_storage_path\<close> and \<open>excel_download_url\<close>.
\<close>

theorem summary_has_fixed_keys:
  assumes "page_present W" and "length (digits_of m) = 11"
  shows "set fixed_keys \<subseteq> summary_keys (process_mawb F W m secs fr cb)
       \<and> summary_keys (process_mawb F W m secs fr cb) \<subseteq> set fixed_keys \<union> extra_keys"
proof -
  from process_mawb_returns [OF assms] obtain r where r: "process_mawb F W m secs fr cb = Inr r"
    by blast
  from result_keys [OF r] show ?thesis by (simp add: summary_keys_def r)
qed

theorem summary_has_fixed_keys_witness:
  "page_present sample_world \<and> length (digits_of ''235-94731221'') = 11
   \<and> set fixed_keys
        \<subseteq> summary_keys (process_mawb decimal_ops sample_world ''235-94731221'' all_sections
                          (found_format sample_world) (Some ''4250''))
   \<and> summary_keys (process_mawb decimal_ops sample_world ''235-94731221'' all_sections
                          (found_format sample_world) (Some ''4250''))
        \<subseteq> set fixed_keys \<union> extra_keys"
proof -
  have p: "page_present sample_world" by (simp add: sample_world_def)
  have l: "length (digits_of ''235-94731221'') = 11" by code_simp
  from summary_has_fixed_keys [OF p l] p l show ?thesis by blast
qed

text \<open>
  Claim C5 as it is stated fails: the run of the sample with all sections returns a summary
  with the key \<open>AMS Arrival Date\<close>, which is not one of the seventeen.
\<close>

theorem summary_keys_counterexample:
  "''AMS Arrival Date''
     \<in> summary_keys (process_mawb decimal_ops sample_world ''235-94731221'' all_sections
          (found_format sample_world) (Some ''4249''))
   \<and> ''AMS Arrival Date'' \<notin> set fixed_keys"
  by (simp add: sample_run_4249 summary_keys_def fixed_keys_def)

subsection \<open>The trace of the PDF block\<close>

text \<open>What a state gives to the download and what the download adds to the trace.\<close>

lemma download_and_upload_trace_suffix:
  "trace (download_and_upload F W st) =
     trace st @ download_events W"
  using download_and_upload_cases [of F W st]
  by (auto simp: after_download_trace download_events_def)

lemma after_download_summary_cong:
  "summary st = summary st' \<Longrightarrow> summary (after_download F W st) = summary (after_download F W st')"
  unfolding after_download_def
  by (auto simp: Let_def split: sum.splits prod.splits)

lemma download_and_upload_summary_cong:
  assumes "summary st = summary st'"
  shows "summary (download_and_upload F W st) = summary (download_and_upload F W st')"
proof (cases "pdf_download W = Inr (Some True)")
  case True
  with download_and_upload_cases [of F W st] download_and_upload_cases [of F W st']
  have "download_and_upload F W st = after_download F W (emit PdfDownload st)"
    and "download_and_upload F W st' = after_download F W (emit PdfDownload st')" by auto
  then show ?thesis
    using after_download_summary_cong [of "emit PdfDownload st" "emit PdfDownload st'" F W] assms
    by simp
next
  case False
  with download_and_upload_cases [of F W st] download_and_upload_cases [of F W st']
  have "download_and_upload F W st = emit PdfDownload st"
    and "download_and_upload F W st' = emit PdfDownload st'" by auto
  with assms show ?thesis by simp
qed

text \<open>
  The trace after the PDF block, when the block starts in a state whose trace has no entry of
  the block.
\<close>

lemma pdf_section_trace:
  "trace (pdf_section F W secs ed st) = trace st
   \<or> (\<not> (ams secs \<and> custom secs)
       \<and> trace (pdf_section F W secs ed st) = trace (download_and_upload F W st)
       \<and> summary (pdf_section F W secs ed st) = summary (download_and_upload F W st))
   \<or> (ams secs \<and> custom secs \<and> initial_verification F W (summary st) = Failed
       \<and> trace (pdf_section F W secs ed st) = trace st @ [Verification Failed]
       \<and> summary (pdf_section F W secs ed st) = summary st)
   \<or> (ams secs \<and> custom secs \<and> initial_verification F W (summary st) \<noteq> Failed
       \<and> trace (pdf_section F W secs ed st)
           = trace st @ Verification (initial_verification F W (summary st))
               # download_events W
       \<and> summary (pdf_section F W secs ed st) = summary (download_and_upload F W st))"
proof -
  let ?v = "initial_verification F W (summary st)"
  from pdf_section_shape [of F W secs ed st] consider
      "pdf_section F W secs ed st = st"
    | "\<not> (ams secs \<and> custom secs)" "pdf_section F W secs ed st = download_and_upload F W st"
    | "ams secs \<and> custom secs" "?v = Failed" "pdf_section F W secs ed st = emit (Verification Failed) st"
    | "ams secs \<and> custom secs" "?v \<noteq> Failed"
      "pdf_section F W secs ed st = download_and_upload F W (emit (Verification ?v) st)"
    by blast
  then show ?thesis
  proof cases
    case 1 then show ?thesis by simp
  next
    case 2 then show ?thesis by simp
  next
    case 3 then show ?thesis by simp
  next
    case 4
    have "summary (download_and_upload F W (emit (Verification ?v) st))
            = summary (download_and_upload F W st)"
      by (rule download_and_upload_summary_cong) simp
    with 4 show ?thesis by (simp add: download_and_upload_trace_suffix)
  qed
qed

lemma download_events_pdf: "ev \<in> set (download_events W) \<Longrightarrow> pdf_event ev \<and> (\<forall>v. ev \<noteq> Verification v)"
  by (auto simp: download_events_def split: if_splits)

lemma PdfDownload_in_download_events: "PdfDownload \<in> set (download_events W)"
  by (simp add: download_events_def)

text \<open>The four ways in which a run that returns has gone through the PDF block.\<close>

lemma run_cases:
  assumes "process_mawb F W m secs fr cb = Inr r"
  obtains
    (no_pdf) "\<forall>ev \<in> set (res_trace r). \<not> pdf_event ev"
      "map_of (res_summary r) ''7501 Batch PDF URL'' = Some ''N/A''"
  | (unverified) st3 :: run_state where "\<not> (ams secs \<and> custom secs)" "download_7501_pdf secs"
      "\<forall>ev \<in> set (trace st3). \<not> pdf_event ev"
      "res_trace r = trace st3 @ download_events W"
      "res_summary r = summary (download_and_upload F W st3)"
  | (failed) st3 :: run_state where "ams secs" "custom secs" "download_7501_pdf secs"
      "initial_verification F W (summary st3) = Failed"
      "\<forall>ev \<in> set (trace st3). \<not> pdf_event ev"
      "res_trace r = trace st3 @ [Verification Failed]"
      "res_summary r = summary st3"
      "map_of (summary st3) ''7501 Batch PDF URL'' = Some ''N/A''"
      "res_status r = None"
  | (verified) st3 :: run_state where "ams secs" "custom secs" "download_7501_pdf secs"
      "initial_verification F W (summary st3) \<noteq> Failed"
      "\<forall>ev \<in> set (trace st3). \<not> pdf_event ev"
      "res_trace r = trace st3 @ Verification (initial_verification F W (summary st3)) # download_events W"
      "res_summary r = summary (download_and_upload F W st3)"
  using assms
proof (cases rule: process_mawb_Inr_cases)
  case (master_not_found digits st1)
  let ?st0 = "\<lparr>summary = initial_summary digits cb, trace = []\<rparr>"
  have "\<not> pdf_event ev" if "ev \<in> set (trace st1)" for ev
  proof -
    from that have "ev \<in> {AmsSearch} \<union> range AmsMaster"
      using ams_section_trace [of W digits ?st0] unfolding master_not_found(4) by auto
    then show ?thesis by auto
  qed
  moreover have "map_of (summary st1) ''7501 Batch PDF URL'' = Some ''N/A''"
    unfolding master_not_found(4)
    using ams_section_other [OF url_not_written_before_pdf(1), of W digits ?st0]
    by (simp add: initial_url)
  ultimately show thesis using no_pdf by (simp add: master_not_found(6))
next
  case (completed digits st1 ed b st3 st4)
  note before = state_before_pdf [OF completed(3,4)]
  show thesis
  proof (cases "download_7501_pdf secs")
    case False
    with completed(5) have "st4 = st3" by simp
    with before show thesis using no_pdf by (simp add: completed(6))
  next
    case True
    with completed(5) have st4: "st4 = pdf_section F W secs ed st3" by simp
    let ?v = "initial_verification F W (summary st3)"
    from pdf_section_trace [of F W secs ed st3] consider
        "trace st4 = trace st3"
      | "\<not> (ams secs \<and> custom secs)"
        "trace st4 = trace (download_and_upload F W st3)"
        "summary st4 = summary (download_and_upload F W st3)"
      | "ams secs \<and> custom secs" "?v = Failed"
        "trace st4 = trace st3 @ [Verification Failed]" "summary st4 = summary st3"
      | "ams secs \<and> custom secs" "?v \<noteq> Failed"
        "trace st4 = trace st3 @ Verification ?v # download_events W"
        "summary st4 = summary (download_and_upload F W st3)"
      unfolding st4 by blast
    then show thesis
    proof cases
      case 1
      have "summary st4 = summary st3"
      proof -
        from pdf_section_shape [of F W secs ed st3] 1 show ?thesis
          unfolding st4 by (auto simp: download_and_upload_trace_suffix download_events_def split: if_splits)
      qed
      with 1 before show thesis using no_pdf by (simp add: completed(6))
    next
      case 2
      with True before(1) show thesis
        using unverified [of st3] by (simp add: completed(6) download_and_upload_trace_suffix)
    next
      case 3
      with True before show thesis using failed [of st3] by (simp add: completed(6))
    next
      case 4
      with True before(1) show thesis using verified [of st3] by (simp add: completed(6))
    qed
  qed
qed


subsection \<open>The verification before the download\<close>

lemma claimed_gate_eq: "claimed_gate F sm = pre_pdf_gate F sm"
  by (simp add: claimed_gate_def pre_pdf_gate_def claimed_number_def parse_value_def Let_def)

lemma claimed_gate_cong:
  assumes "\<And>k. k \<in> gate_keys \<Longrightarrow> map_of sm k = map_of sm' k"
  shows "claimed_gate F sm = claimed_gate F sm'"
proof -
  have "claimed_number F sm k = claimed_number F sm' k" if "k \<in> gate_keys" for k
    using assms [OF that] by (simp add: claimed_number_def)
  then show ?thesis by (simp add: claimed_gate_def gate_keys_def)
qed

lemma claimed_gate_after_download:
  "claimed_gate F (summary (download_and_upload F W st)) = claimed_gate F (summary st)"
  by (rule claimed_gate_cong) (simp add: download_and_upload_other gate_keys_not_pdf_keys)

lemma initial_verification_Passed:
  "initial_verification F W sm = Passed \<longleftrightarrow> gate_fault W = None \<and> pre_pdf_gate F sm"
  by (simp add: initial_verification_def split: option.splits)

lemma initial_verification_Failed:
  "initial_verification F W sm = Failed \<longleftrightarrow> gate_fault W = None \<and> \<not> pre_pdf_gate F sm"
  by (simp add: initial_verification_def split: option.splits)

lemma initial_verification_Raised:
  "initial_verification F W sm = Raised \<longleftrightarrow> gate_fault W \<noteq> None"
  by (simp add: initial_verification_def split: option.splits)

text \<open>The verdicts in the trace of a run.\<close>

lemma run_verdict:
  assumes "process_mawb F W m secs fr cb = Inr r" and "Verification v \<in> set (res_trace r)"
  shows "ams secs \<and> custom secs \<and> download_7501_pdf secs
       \<and> (\<forall>v'. Verification v' \<in> set (res_trace r) \<longrightarrow> v' = v)
       \<and> (v = Passed \<longrightarrow> claimed_gate F (res_summary r) \<and> PdfDownload \<in> set (res_trace r))
       \<and> (v = Failed \<longrightarrow> \<not> claimed_gate F (res_summary r) \<and> PdfDownload \<notin> set (res_trace r)
             \<and> map_of (res_summary r) ''7501 Batch PDF URL'' = Some ''N/A'' \<and> res_status r = None)
       \<and> (v = Raised \<longrightarrow> gate_fault W \<noteq> None \<and> PdfDownload \<in> set (res_trace r))"
  using assms(1)
proof (cases rule: run_cases)
  case no_pdf
  with assms(2) show ?thesis by force
next
  case (unverified st3)
  from assms(2) unverified(3,4) have "Verification v \<in> set (download_events W)" by force
  with download_events_pdf [of "Verification v" W] show ?thesis by blast
next
  case (failed st3)
  have only: "v' = Failed" if "Verification v' \<in> set (res_trace r)" for v'
    using that failed(5,6) by force
  have "PdfDownload \<notin> set (res_trace r)" using failed(5,6) by force
  moreover have "\<not> claimed_gate F (res_summary r)"
    using failed(4,7) by (simp add: claimed_gate_eq initial_verification_Failed)
  ultimately show ?thesis
    using failed(1,2,3,7,8,9) only only [OF assms(2)] by auto
next
  case (verified st3)
  let ?v = "initial_verification F W (summary st3)"
  have only: "v' = ?v" if "Verification v' \<in> set (res_trace r)" for v'
  proof -
    from that verified(6) consider "Verification v' \<in> set (trace st3)" | "v' = ?v"
      | "Verification v' \<in> set (download_events W)" by auto
    then show ?thesis
    proof cases
      case 1 with verified(5) show ?thesis by force
    next
      case 2 then show ?thesis .
    next
      case 3 with download_events_pdf [of "Verification v'" W] show ?thesis by blast
    qed
  qed
  have dl: "PdfDownload \<in> set (res_trace r)"
    using verified(6) PdfDownload_in_download_events [of W] by simp
  have gate: "claimed_gate F (res_summary r) = pre_pdf_gate F (summary st3)"
    using claimed_gate_after_download [of F W st3] claimed_gate_eq [of F "summary st3"]
    by (simp only: verified(7))
  from only [OF assms(2)] have v: "v = ?v" .
  show ?thesis
  proof (cases v)
    case Passed
    with v have "pre_pdf_gate F (summary st3)" using initial_verification_Passed [of F W "summary st3"] by simp
    with Passed v only dl gate verified(1,2,3) show ?thesis by auto
  next
    case Failed
    with v verified(4) show ?thesis by simp
  next
    case Raised
    with v have "gate_fault W \<noteq> None" using initial_verification_Raised [of F W "summary st3"] by simp
    with Raised v only dl verified(1,2,3) show ?thesis by auto
  qed
qed

text \<open>A download that is in the trace has stored what the extraction returned.\<close>

lemma run_download:
  assumes "process_mawb F W m secs fr cb = Inr r" and "PdfDownload \<in> set (res_trace r)"
    and "pdf_download W = Inr (Some True)" and "pdf_extract W = Inr (n, d)"
  shows "map_of (res_summary r) ''7501 Total T-11 Entries'' = Some (str_int n)
       \<and> map_of (res_summary r) ''7501 Duty'' = Some (f_format2 F d)"
  using assms(1)
proof (cases rule: run_cases)
  case no_pdf
  with assms(2) show ?thesis by force
next
  case (unverified st3)
  then show ?thesis using download_and_upload_extracted [OF assms(3,4)] by simp
next
  case (failed st3)
  with assms(2) show ?thesis by force
next
  case (verified st3)
  then show ?thesis using download_and_upload_extracted [OF assms(3,4)] by simp
qed


subsection \<open>What the PDF block records\<close>

text \<open>
  Claim C3. When a run has downloaded the 7501 Batch PDF (the download is in its trace and
  gave a file that exists) and the extraction returns the pair \<open>(n, d)\<close>, the summary the run
  returns has \<open>str(n)\<close> under \<open>7501 Total T-11 Entries\<close> and \<open>d\<close> in the format \<open>.2f\<close> under
  \<open>7501 Duty\<close>, whatever \<open>n\<close> and \<open>d\<close> are, zero too.
\<close>

theorem extracted_values_recorded:
  assumes "PdfDownload \<in> set (trace_of (process_mawb F W m secs fr cb))"
    and "pdf_download W = Inr (Some True)" and "pdf_extract W = Inr (n, d)"
  shows "summary_value (process_mawb F W m secs fr cb) ''7501 Total T-11 Entries'' = Some (str_int n)
       \<and> summary_value (process_mawb F W m secs fr cb) ''7501 Duty'' = Some (f_format2 F d)"
proof (cases "process_mawb F W m secs fr cb")
  case (Inl e)
  with assms(1) show ?thesis by (simp add: trace_of_def)
next
  case (Inr r)
  with assms(1) have "PdfDownload \<in> set (res_trace r)" by (simp add: trace_of_def)
  from run_download [OF Inr this assms(2,3)] show ?thesis by (simp add: summary_value_def Inr)
qed

theorem extracted_values_recorded_witness:
  "PdfDownload \<in> set (trace_of (process_mawb decimal_ops sample_world ''235-94731221'' all_sections
                                  (found_format sample_world) (Some ''4250'')))
   \<and> pdf_download sample_world = Inr (Some True)
   \<and> pdf_extract sample_world = Inr (0, 0)
   \<and> summary_value (process_mawb decimal_ops sample_world ''235-94731221'' all_sections
                       (found_format sample_world) (Some ''4250'')) ''7501 Total T-11 Entries''
       = Some ''0''
   \<and> summary_value (process_mawb decimal_ops sample_world ''235-94731221'' all_sections
                       (found_format sample_world) (Some ''4250'')) ''7501 Duty''
       = Some ''0.00''"
proof -
  have dl: "PdfDownload \<in> set (trace_of (process_mawb decimal_ops sample_world ''235-94731221''
              all_sections (found_format sample_world) (Some ''4250'')))"
    by (simp add: sample_run_4250 trace_of_def)
  from extracted_values_recorded [OF dl sample_world_fields(5) sample_world_fields(6)]
  show ?thesis
    using dl by (simp add: sample_world_fields sample_formats decimal_ops_fields)
qed

subsection \<open>The verification decides the download\<close>

text \<open>
  Claim C6. In the trace of a run a verdict of the verification before the download occurs
  only when the sections \<open>ams\<close> and \<open>custom\<close> are both on. When the verification was
  evaluated to a verdict (passed or failed), it passed if and only if the summary meets the
  condition of the specification: the four house counts equal in a chain, no rejected entry,
  and the two duties within the tolerance, every value read as a number and a missing or
  unreadable one as zero. After a failed verdict there is no download.
\<close>

theorem gate_decides_download:
  "(\<forall>v. Verification v \<in> set (trace_of (process_mawb F W m secs fr cb)) \<longrightarrow> ams secs \<and> custom secs)
   \<and> ((Verification Passed \<in> set (trace_of (process_mawb F W m secs fr cb))
        \<or> Verification Failed \<in> set (trace_of (process_mawb F W m secs fr cb)))
       \<longrightarrow> (Verification Passed \<in> set (trace_of (process_mawb F W m secs fr cb))
            \<longleftrightarrow> claimed_gate F (summary_of (process_mawb F W m secs fr cb))))
   \<and> (Verification Failed \<in> set (trace_of (process_mawb F W m secs fr cb))
       \<longrightarrow> PdfDownload \<notin> set (trace_of (process_mawb F W m secs fr cb)))"
proof (cases "process_mawb F W m secs fr cb")
  case (Inl e)
  then show ?thesis by (simp add: trace_of_def)
next
  case (Inr r)
  have tr: "trace_of (process_mawb F W m secs fr cb) = res_trace r"
    and sm: "summary_of (process_mawb F W m secs fr cb) = res_summary r"
    by (simp_all add: Inr trace_of_def summary_of_def)
  have a: "ams secs \<and> custom secs" if "Verification v \<in> set (res_trace r)" for v
    using run_verdict [OF Inr that] by blast
  have p: "claimed_gate F (res_summary r)" "Verification Failed \<notin> set (res_trace r)"
    if "Verification Passed \<in> set (res_trace r)"
    using run_verdict [OF Inr that] by auto
  have f: "\<not> claimed_gate F (res_summary r)" "PdfDownload \<notin> set (res_trace r)"
    if "Verification Failed \<in> set (res_trace r)"
    using run_verdict [OF Inr that] by auto
  show ?thesis unfolding tr sm using a p f by blast
qed

theorem gate_decides_download_witness:
  "Verification Failed \<in> set (trace_of (process_mawb decimal_ops sample_world ''235-94731221''
       all_sections (found_format sample_world) (Some ''4249'')))
   \<and> ams all_sections \<and> custom all_sections
   \<and> \<not> claimed_gate decimal_ops (summary_of (process_mawb decimal_ops sample_world ''235-94731221''
       all_sections (found_format sample_world) (Some ''4249'')))
   \<and> PdfDownload \<notin> set (trace_of (process_mawb decimal_ops sample_world ''235-94731221''
       all_sections (found_format sample_world) (Some ''4249'')))
   \<and> Verification Passed \<in> set (trace_of (process_mawb decimal_ops sample_world ''235-94731221''
       all_sections (found_format sample_world) (Some ''4250'')))
   \<and> claimed_gate decimal_ops (summary_of (process_mawb decimal_ops sample_world ''235-94731221''
       all_sections (found_format sample_world) (Some ''4250'')))"
proof -
  have f: "Verification Failed \<in> set (trace_of (process_mawb decimal_ops sample_world
       ''235-94731221'' all_sections (found_format sample_world) (Some ''4249'')))"
    by (simp add: sample_run_4249 trace_of_def)
  have nf: "Verification Passed \<notin> set (trace_of (process_mawb decimal_ops sample_world
       ''235-94731221'' all_sections (found_format sample_world) (Some ''4249'')))"
    by (simp add: sample_run_4249 trace_of_def)
  have p: "Verification Passed \<in> set (trace_of (process_mawb decimal_ops sample_world
       ''235-94731221'' all_sections (found_format sample_world) (Some ''4250'')))"
    by (simp add: sample_run_4250 trace_of_def)
  from gate_decides_download [of decimal_ops sample_world "''235-94731221''" all_sections
         "found_format sample_world" "Some ''4249''"]
       gate_decides_download [of decimal_ops sample_world "''235-94731221''" all_sections
         "found_format sample_world" "Some ''4250''"]
       f nf p
  show ?thesis by blast
qed

end
